theory Spec2Isabelle
  imports Complex_Main
begin

section \<open>Data model\<close>

text \<open>
  The store behind the cart and order controllers. Identifiers of users and products are
  the strings the requests carry; identifiers the store generates (cart lines, orders) are
  drawn from a counter. Quantities and stock are integers, as the requests and the store
  hold them. A price or total in the store is a finite double, held here as the rational it
  denotes; the arithmetic of the handlers on them is the double precision arithmetic of
  JavaScript, modelled below. Strings are byte strings in UTF-8.
\<close>

type_synonym user_id = string
type_synonym product_id = string

datatype order_status =
  PENDING | CONFIRMED | PROCESSING | SHIPPED | DELIVERED | CANCELLED | REFUNDED

text \<open>
  The failures of the handlers under the names the spec gives them. The handlers answer
  400 with a message for \<open>InvalidArgument\<close> (no shipping address, no product id, a
  quantity below one, an unknown status), \<open>EmptyCart\<close>, \<open>ProductUnavailable\<close> (the
  message names the product), \<open>InsufficientStock\<close> (the message gives the stock) and
  \<open>InvalidState\<close>, 404 for \<open>NotFound\<close> and 403 for \<open>Forbidden\<close>.
  \<open>RecordNotFound\<close> is the error P2025 that the store throws when an update finds no
  record, \<open>InternalError\<close> any other exception handed to the error handler.
\<close>

datatype error =
    InvalidArgument
  | EmptyCart
  | ProductUnavailable string
  | InsufficientStock int
  | NotFound
  | Forbidden
  | InvalidState
  | RecordNotFound
  | InternalError

record product =
  p_name :: string
  p_price :: rat
  p_stock :: int
  p_isActive :: bool

record cartItem =
  ci_id :: nat
  ci_productId :: product_id
  ci_quantity :: int
  ci_customDesign :: "string option"

record orderItem =
  oi_productId :: product_id
  oi_quantity :: int
  oi_price :: rat
  oi_customDesign :: "string option"

text \<open>
  \<open>o_paymentStatus\<close> is \<open>None\<close> as long as no request has set it: the column then
  holds the default of the schema.
\<close>

record order =
  o_id :: nat
  o_userId :: user_id
  o_total :: rat
  o_status :: order_status
  o_paymentStatus :: "string option"
  o_shippingAddress :: "string option"
  o_paymentMethod :: string
  o_notes :: "string option"
  o_items :: "orderItem list"

text \<open>
  A cart is unique per user and its lines carry the cart's key, so the cart table and its
  lines are one map from the user to the lines in creation order. A user without a cart
  record maps to \<open>None\<close>, an empty cart to \<open>Some []\<close>.
\<close>

record database =
  products :: "product_id \<rightharpoonup> product"
  carts :: "user_id \<rightharpoonup> cartItem list"
  orders :: "nat \<rightharpoonup> order"
  next_id :: nat

record req_user =
  userId :: user_id
  role :: string

record order_body =
  ob_shippingAddress :: "string option"
  ob_paymentMethod :: "string option"
  ob_notes :: "string option"

record quantity_body =
  qb_quantity :: "int option"

record cart_body =
  cb_productId :: "string option"
  cb_quantity :: "int option"
  cb_customDesign :: "string option"

record status_body =
  sb_status :: "string option"
  sb_paymentStatus :: "string option"

text \<open>JavaScript truthiness of an optional string: absent and empty are falsy.\<close>

fun truthy :: "string option \<Rightarrow> bool" where
  "truthy None = False"
| "truthy (Some s) = (s \<noteq> [])"

text \<open>\<open>x || d\<close> on an optional string.\<close>

fun js_or :: "string option \<Rightarrow> string \<Rightarrow> string" where
  "js_or None d = d"
| "js_or (Some s) d = (if s = [] then d else s)"

section \<open>JavaScript numbers\<close>

text \<open>
  A JavaScript number is an IEEE 754 double: a finite value, an infinity or NaN. The sign
  of zero is not represented; nothing in the handlers tells the two zeros apart.
\<close>

datatype js_number = Finite rat | PlusInfinity | MinusInfinity | NaN

definition pow2 :: "int \<Rightarrow> rat" where
  "pow2 k = (if 0 \<le> k then 2 ^ nat k else 1 / 2 ^ nat (- k))"

text \<open>The number of binary digits of a positive integer.\<close>

function bit_length :: "int \<Rightarrow> int" where
  "bit_length n = (if n \<le> 0 then 0 else 1 + bit_length (n div 2))"
  by pat_completeness auto
termination
  by (relation "measure nat") auto

declare bit_length.simps [simp del]

text \<open>The binary exponent of a rational other than zero: \<open>2 ^ e \<le> |x| < 2 ^ (e + 1)\<close>.\<close>

definition ilog2 :: "rat \<Rightarrow> int" where
  "ilog2 x =
     (let k = bit_length (fst (quotient_of \<bar>x\<bar>)) - bit_length (snd (quotient_of \<bar>x\<bar>))
      in if pow2 k \<le> \<bar>x\<bar> then k else k - 1)"

definition round_half_even :: "rat \<Rightarrow> int" where
  "round_half_even x =
     (let f = \<lfloor>x\<rfloor>; r = x - of_int f
      in if r < 1 / 2 then f else if 1 / 2 < r then f + 1 else if even f then f else f + 1)"

text \<open>
  The double nearest to a rational, ties to the even significand: 53 significant bits,
  the spacing of the subnormal numbers below \<open>2 ^ -1022\<close>, an infinity when the rounded
  value reaches \<open>2 ^ 1024\<close>. Every arithmetic operation on finite doubles is the exact
  operation followed by this rounding.
\<close>

definition round_double :: "rat \<Rightarrow> js_number" where
  "round_double x =
     (if x = 0 then Finite 0
      else
        let ulp = pow2 (max (ilog2 x) (- 1022) - 52);
            y = of_int (round_half_even (x / ulp)) * ulp
        in if y \<noteq> 0 \<and> 1024 \<le> ilog2 y then (if 0 < x then PlusInfinity else MinusInfinity)
           else Finite y)"

text \<open>\<open>a + b\<close>\<close>

fun js_add :: "js_number \<Rightarrow> js_number \<Rightarrow> js_number" where
  "js_add (Finite x) (Finite y) = round_double (x + y)"
| "js_add NaN _ = NaN"
| "js_add _ NaN = NaN"
| "js_add PlusInfinity MinusInfinity = NaN"
| "js_add MinusInfinity PlusInfinity = NaN"
| "js_add PlusInfinity _ = PlusInfinity"
| "js_add MinusInfinity _ = MinusInfinity"
| "js_add _ PlusInfinity = PlusInfinity"
| "js_add _ MinusInfinity = MinusInfinity"

text \<open>\<open>a * b\<close>\<close>

fun js_mul :: "js_number \<Rightarrow> js_number \<Rightarrow> js_number" where
  "js_mul (Finite x) (Finite y) = round_double (x * y)"
| "js_mul NaN _ = NaN"
| "js_mul _ NaN = NaN"
| "js_mul (Finite x) PlusInfinity =
     (if x = 0 then NaN else if 0 < x then PlusInfinity else MinusInfinity)"
| "js_mul (Finite x) MinusInfinity =
     (if x = 0 then NaN else if 0 < x then MinusInfinity else PlusInfinity)"
| "js_mul PlusInfinity (Finite y) =
     (if y = 0 then NaN else if 0 < y then PlusInfinity else MinusInfinity)"
| "js_mul MinusInfinity (Finite y) =
     (if y = 0 then NaN else if 0 < y then MinusInfinity else PlusInfinity)"
| "js_mul PlusInfinity PlusInfinity = PlusInfinity"
| "js_mul MinusInfinity MinusInfinity = PlusInfinity"
| "js_mul PlusInfinity MinusInfinity = MinusInfinity"
| "js_mul MinusInfinity PlusInfinity = MinusInfinity"

text \<open>\<open>a / 100\<close>, the one division of the handlers.\<close>

fun js_div_100 :: "js_number \<Rightarrow> js_number" where
  "js_div_100 (Finite x) = round_double (x / 100)"
| "js_div_100 a = a"

text \<open>
  \<open>Math.round\<close>: the nearest integer, a half going up. The result is exact: a double
  of \<open>2 ^ 52\<close> or more is an integer already.
\<close>

fun Math_round :: "js_number \<Rightarrow> js_number" where
  "Math_round (Finite x) = Finite (of_int \<lfloor>x + 1 / 2\<rfloor>)"
| "Math_round a = a"

text \<open>An integer of the store as a number.\<close>

definition js_number_of_int :: "int \<Rightarrow> js_number" where
  "js_number_of_int n = round_double (of_int n)"

text \<open>\<open>Math.round(total * 100) / 100\<close>\<close>

definition round2 :: "js_number \<Rightarrow> js_number" where
  "round2 x = js_div_100 (Math_round (js_mul x (Finite 100)))"

text \<open>
  Modelled from the spec: the status a created order gets is the default of the schema,
  which is not among the sources; the spec has the order created with status PENDING.
\<close>

definition default_status :: order_status where
  "default_status = PENDING"

section \<open>Order placement\<close>

text \<open>
  \<open>placeOrder\<close> of the order controller (src/backend/controllers/news.js, lines
  300 to 394), in the three steps it takes: the read of the cart, the validation of the
  lines read, and the transaction.
\<close>

text \<open>The cart read with \<open>include: { items: { include: { product: true } } }\<close>.\<close>

definition include_product ::
  "database \<Rightarrow> cartItem list \<Rightarrow> (cartItem \<times> product option) list" where
  "include_product db its = map (\<lambda>item. (item, products db (ci_productId item))) its"

definition placeOrder_read ::
  "req_user \<Rightarrow> order_body \<Rightarrow> database \<Rightarrow> error + (cartItem \<times> product option) list" where
  "placeOrder_read user body db =
     (if \<not> truthy (ob_shippingAddress body) then Inl InvalidArgument
      else case carts db (userId user) of
        None \<Rightarrow> Inl EmptyCart
      | Some its \<Rightarrow> if length its = 0 then Inl EmptyCart else Inr (include_product db its))"

text \<open>
  The validation loop over the lines that were read. Reading a field of a product that is
  not there throws, which the handler passes on as an internal error.
\<close>

fun validate_items ::
  "(cartItem \<times> product option) list \<Rightarrow> error + (cartItem \<times> product) list" where
  "validate_items [] = Inr []"
| "validate_items ((item, None) # rest) = Inl InternalError"
| "validate_items ((item, Some p) # rest) =
     (if \<not> p_isActive p then Inl (ProductUnavailable (p_name p))
      else if p_stock p < ci_quantity item then Inl (InsufficientStock (p_stock p))
      else (case validate_items rest of
              Inl e \<Rightarrow> Inl e
            | Inr ls \<Rightarrow> Inr ((item, p) # ls)))"

text \<open>\<open>cart.items.reduce((sum, item) => sum + item.product.price * item.quantity, 0)\<close>\<close>

definition cart_total :: "(cartItem \<times> product) list \<Rightarrow> js_number" where
  "cart_total ls =
     foldl (\<lambda>sum (item, p).
              js_add sum (js_mul (Finite (p_price p)) (js_number_of_int (ci_quantity item))))
       (Finite 0) ls"

definition order_item_of :: "cartItem \<times> product \<Rightarrow> orderItem" where
  "order_item_of ip =
     \<lparr>oi_productId = ci_productId (fst ip), oi_quantity = ci_quantity (fst ip),
      oi_price = p_price (snd ip), oi_customDesign = ci_customDesign (fst ip)\<rparr>"

text \<open>
  \<open>tx.product.update\<close> with \<open>stock: { decrement: n }\<close>, line after line. An update
  of a record that does not exist throws (P2025).
\<close>

fun decrement_stock ::
  "(product_id \<rightharpoonup> product) \<Rightarrow> cartItem list \<Rightarrow> error + (product_id \<rightharpoonup> product)" where
  "decrement_stock ps [] = Inr ps"
| "decrement_stock ps (item # rest) =
     (case ps (ci_productId item) of
        None \<Rightarrow> Inl RecordNotFound
      | Some p \<Rightarrow>
          decrement_stock
            (ps(ci_productId item \<mapsto> p\<lparr>p_stock := p_stock p - ci_quantity item\<rparr>)) rest)"

text \<open>
  The transaction: create the order, decrement the stock, delete the lines of the cart.
  It runs on the store as it is when the transaction starts, with the lines read before.
  An error inside rolls everything back. The client of the store sends its arguments as
  JSON, which has no infinity and no NaN: with such a total the creation of the order
  throws.
\<close>

definition placeOrder_tx ::
  "req_user \<Rightarrow> order_body \<Rightarrow> (cartItem \<times> product) list \<Rightarrow> database
     \<Rightarrow> (error + order) \<times> database" where
  "placeOrder_tx user body ls db =
     (case round2 (cart_total ls) of
        Finite amount \<Rightarrow>
          (let newOrder =
                 \<lparr>o_id = next_id db, o_userId = userId user,
                  o_total = amount, o_status = default_status,
                  o_paymentStatus = None,
                  o_shippingAddress = ob_shippingAddress body,
                  o_paymentMethod = js_or (ob_paymentMethod body) ''cod'',
                  o_notes = ob_notes body,
                  o_items = map order_item_of ls\<rparr>
           in case decrement_stock (products db) (map fst ls) of
                Inl e \<Rightarrow> (Inl e, db)
              | Inr ps \<Rightarrow>
                  (Inr newOrder,
                   db\<lparr>products := ps,
                      carts := (case carts db (userId user) of
                                  None \<Rightarrow> carts db
                                | Some _ \<Rightarrow> (carts db)(userId user \<mapsto> [])),
                      orders := (orders db)(next_id db \<mapsto> newOrder),
                      next_id := Suc (next_id db)\<rparr>))
      | _ \<Rightarrow> (Inl InternalError, db))"

definition placeOrder ::
  "req_user \<Rightarrow> order_body \<Rightarrow> database \<Rightarrow> (error + order) \<times> database" where
  "placeOrder user body db =
     (case placeOrder_read user body db of
        Inl e \<Rightarrow> (Inl e, db)
      | Inr snapshot \<Rightarrow>
          (case validate_items snapshot of
             Inl e \<Rightarrow> (Inl e, db)
           | Inr ls \<Rightarrow> placeOrder_tx user body ls db))"

section \<open>Order cancellation\<close>

text \<open>
  \<open>cancelOrder\<close> of the order controller (lines 480 to 520). Its transaction is
  \<open>tx.product.update\<close> with \<open>stock: { increment: n }\<close>, line after line, throwing
  (P2025) at a product that does not exist.
\<close>

fun increment_stock ::
  "(product_id \<rightharpoonup> product) \<Rightarrow> orderItem list \<Rightarrow> error + (product_id \<rightharpoonup> product)" where
  "increment_stock ps [] = Inr ps"
| "increment_stock ps (item # rest) =
     (case ps (oi_productId item) of
        None \<Rightarrow> Inl RecordNotFound
      | Some p \<Rightarrow>
          increment_stock
            (ps(oi_productId item \<mapsto> p\<lparr>p_stock := p_stock p + oi_quantity item\<rparr>)) rest)"

definition cancelOrder ::
  "req_user \<Rightarrow> nat \<Rightarrow> database \<Rightarrow> (error + unit) \<times> database" where
  "cancelOrder user oid db =
     (case orders db oid of
        None \<Rightarrow> (Inl NotFound, db)
      | Some ord \<Rightarrow>
          if o_userId ord \<noteq> userId user \<and> role user \<noteq> ''ADMIN'' then (Inl Forbidden, db)
          else if o_status ord \<notin> set [PENDING, CONFIRMED] then (Inl InvalidState, db)
          else (case increment_stock (products db) (o_items ord) of
                  Inl e \<Rightarrow> (Inl e, db)
                | Inr ps \<Rightarrow>
                    (Inr (),
                     db\<lparr>products := ps,
                        orders := (orders db)(oid \<mapsto> ord\<lparr>o_status := CANCELLED\<rparr>)\<rparr>)))"

section \<open>Status update by an administrator\<close>

text \<open>
  \<open>updateOrderStatus\<close> of the order controller (lines 576 to 609). The status of the
  request is a string, compared in upper case with the list of valid statuses and stored
  as the status it names.
\<close>

text \<open>
  \<open>String.prototype.toUpperCase\<close>, as far as its result is ASCII; \<open>None\<close> stands
  for a result with a character outside ASCII, which no valid status has. The letters a to
  z go to A to Z and the other ASCII characters stay. Ten characters outside ASCII have an
  upper case inside it: U+00DF (SS), U+0131 (I), U+017F (S) and the ligatures U+FB00 to
  U+FB06 (FF, FI, FL, FFI, FFL, ST, ST), here in their UTF-8 bytes. The upper case of every
  other character is outside ASCII.
\<close>

definition ligature_upper :: "nat \<Rightarrow> string" where
  "ligature_upper b =
     (if b = 128 then ''FF'' else if b = 129 then ''FI'' else if b = 130 then ''FL''
      else if b = 131 then ''FFI'' else if b = 132 then ''FFL'' else ''ST'')"

fun upper_bytes :: "nat list \<Rightarrow> string option" where
  "upper_bytes [] = Some []"
| "upper_bytes (b # bs) =
     (if b < 128
      then map_option ((#) (char_of (if 97 \<le> b \<and> b \<le> 122 then b - 32 else b)))
             (upper_bytes bs)
      else (case bs of
              [] \<Rightarrow> None
            | b1 # bs1 \<Rightarrow>
                if b = 195 \<and> b1 = 159 then map_option ((@) ''SS'') (upper_bytes bs1)
                else if b = 196 \<and> b1 = 177 then map_option ((@) ''I'') (upper_bytes bs1)
                else if b = 197 \<and> b1 = 191 then map_option ((@) ''S'') (upper_bytes bs1)
                else (case bs1 of
                        [] \<Rightarrow> None
                      | b2 # bs2 \<Rightarrow>
                          if b = 239 \<and> b1 = 172 \<and> 128 \<le> b2 \<and> b2 \<le> 134
                          then map_option ((@) (ligature_upper b2)) (upper_bytes bs2)
                          else None)))"

definition toUpperCase :: "string \<Rightarrow> string option" where
  "toUpperCase s = upper_bytes (map of_char s)"

text \<open>
  The valid statuses with the status each names, and the status that the upper case of a
  string names, if it is one of them.
\<close>

definition validStatuses :: "(string \<times> order_status) list" where
  "validStatuses =
     [(''PENDING'', PENDING), (''CONFIRMED'', CONFIRMED), (''PROCESSING'', PROCESSING),
      (''SHIPPED'', SHIPPED), (''DELIVERED'', DELIVERED), (''CANCELLED'', CANCELLED),
      (''REFUNDED'', REFUNDED)]"

definition status_named :: "string \<Rightarrow> order_status option" where
  "status_named s =
     (case toUpperCase s of None \<Rightarrow> None | Some u \<Rightarrow> map_of validStatuses u)"

definition updateOrderStatus ::
  "nat \<Rightarrow> status_body \<Rightarrow> database \<Rightarrow> (error + order) \<times> database" where
  "updateOrderStatus oid body db =
     (if truthy (sb_status body) \<and> status_named (js_or (sb_status body) []) = None
      then (Inl InvalidArgument, db)
      else (case orders db oid of
              None \<Rightarrow> (Inl NotFound, db)
            | Some ord \<Rightarrow>
                (let ord1 = (if truthy (sb_status body)
                             then (case status_named (js_or (sb_status body) []) of
                                     None \<Rightarrow> ord
                                   | Some st \<Rightarrow> ord\<lparr>o_status := st\<rparr>)
                             else ord);
                     updated = (if truthy (sb_paymentStatus body)
                                then ord1\<lparr>o_paymentStatus := sb_paymentStatus body\<rparr> else ord1)
                 in (Inr updated, db\<lparr>orders := (orders db)(oid \<mapsto> updated)\<rparr>))))"

section \<open>Cart\<close>

text \<open>
  The cart controller (src/unnamed/part_002, lines 203 to 368): \<open>addToCart\<close>,
  \<open>updateCartItem\<close>, \<open>removeFromCart\<close> and \<open>clearCart\<close>. The quantity of a
  request is an integer, absent when the request has none; \<open>addToCart\<close> then takes 1.
  A failed \<open>addToCart\<close> keeps the cart record it may have created.
\<close>

definition ensure_cart :: "user_id \<Rightarrow> database \<Rightarrow> database" where
  "ensure_cart uid db =
     (case carts db uid of
        None \<Rightarrow> db\<lparr>carts := (carts db)(uid \<mapsto> [])\<rparr>
      | Some _ \<Rightarrow> db)"

definition cart_items :: "user_id \<Rightarrow> database \<Rightarrow> cartItem list" where
  "cart_items uid db = (case carts db uid of None \<Rightarrow> [] | Some its \<Rightarrow> its)"

definition addToCart ::
  "req_user \<Rightarrow> cart_body \<Rightarrow> database \<Rightarrow> (error + cartItem) \<times> database" where
  "addToCart user body db =
     (if \<not> truthy (cb_productId body) then (Inl InvalidArgument, db)
      else
        let pid = js_or (cb_productId body) [] in
        case products db pid of
          None \<Rightarrow> (Inl NotFound, db)
        | Some prd \<Rightarrow>
            if \<not> p_isActive prd then (Inl NotFound, db)
            else
              let qty = (case cb_quantity body of None \<Rightarrow> 1 | Some q \<Rightarrow> q) in
              if p_stock prd < qty then (Inl (InsufficientStock (p_stock prd)), db)
              else
                let db1 = ensure_cart (userId user) db;
                    its = cart_items (userId user) db1;
                    existingItem =
                      (if \<not> truthy (cb_customDesign body)
                       then find (\<lambda>i. ci_productId i = pid \<and> ci_customDesign i = None) its
                       else None)
                in case existingItem of
                     Some ex \<Rightarrow>
                       let newQty = ci_quantity ex + qty in
                       if newQty > p_stock prd
                       then (Inl (InsufficientStock (p_stock prd)), db1)
                       else
                         let updated = ex\<lparr>ci_quantity := newQty\<rparr> in
                         (Inr updated,
                          db1\<lparr>carts := (carts db1)(userId user \<mapsto>
                                 map (\<lambda>i. if ci_id i = ci_id ex then updated else i) its)\<rparr>)
                   | None \<Rightarrow>
                       let created =
                             \<lparr>ci_id = next_id db1, ci_productId = pid, ci_quantity = qty,
                              ci_customDesign =
                                (if truthy (cb_customDesign body) then cb_customDesign body
                                 else None)\<rparr>
                       in (Inr created,
                           db1\<lparr>carts := (carts db1)(userId user \<mapsto> its @ [created]),
                               next_id := Suc (next_id db1)\<rparr>))"

definition updateCartItem ::
  "req_user \<Rightarrow> nat \<Rightarrow> quantity_body \<Rightarrow> database \<Rightarrow> (error + cartItem) \<times> database" where
  "updateCartItem user itemId body db =
     (case qb_quantity body of
        None \<Rightarrow> (Inl InvalidArgument, db)
      | Some qty \<Rightarrow>
          if qty = 0 \<or> qty < 1 then (Inl InvalidArgument, db)
          else (case carts db (userId user) of
                  None \<Rightarrow> (Inl NotFound, db)
                | Some its \<Rightarrow>
                    (case find (\<lambda>i. ci_id i = itemId) its of
                       None \<Rightarrow> (Inl NotFound, db)
                     | Some cartItem \<Rightarrow>
                         (case products db (ci_productId cartItem) of
                            None \<Rightarrow> (Inl InternalError, db)
                          | Some prd \<Rightarrow>
                              if qty > p_stock prd
                              then (Inl (InsufficientStock (p_stock prd)), db)
                              else
                                let updated = cartItem\<lparr>ci_quantity := qty\<rparr> in
                                (Inr updated,
                                 db\<lparr>carts := (carts db)(userId user \<mapsto>
                                       map (\<lambda>i. if ci_id i = itemId then updated else i) its)\<rparr>)))))"

definition removeFromCart ::
  "req_user \<Rightarrow> nat \<Rightarrow> database \<Rightarrow> (error + unit) \<times> database" where
  "removeFromCart user itemId db =
     (case carts db (userId user) of
        None \<Rightarrow> (Inl NotFound, db)
      | Some its \<Rightarrow>
          (case find (\<lambda>i. ci_id i = itemId) its of
             None \<Rightarrow> (Inl NotFound, db)
           | Some _ \<Rightarrow>
               (Inr (),
                db\<lparr>carts := (carts db)(userId user \<mapsto>
                      filter (\<lambda>i. ci_id i \<noteq> itemId) its)\<rparr>)))"

definition clearCart :: "req_user \<Rightarrow> database \<Rightarrow> (error + unit) \<times> database" where
  "clearCart user db =
     (case carts db (userId user) of
        None \<Rightarrow> (Inl NotFound, db)
      | Some _ \<Rightarrow> (Inr (), db\<lparr>carts := (carts db)(userId user \<mapsto> [])\<rparr>))"

section \<open>Two requests in flight\<close>

text \<open>
  \<open>placeOrder\<close> reads and validates the cart before it opens its transaction, and every
  \<open>await\<close> lets another request run. One schedule of two requests: both read and
  validate on the same store, then the two transactions commit one after the other.
\<close>

definition placeOrder_interleaved ::
  "req_user \<Rightarrow> order_body \<Rightarrow> req_user \<Rightarrow> order_body \<Rightarrow> database
     \<Rightarrow> (error + order) \<times> (error + order) \<times> database" where
  "placeOrder_interleaved userA bodyA userB bodyB db =
     (let validA = (case placeOrder_read userA bodyA db of
                      Inl e \<Rightarrow> Inl e | Inr snapshot \<Rightarrow> validate_items snapshot);
          validB = (case placeOrder_read userB bodyB db of
                      Inl e \<Rightarrow> Inl e | Inr snapshot \<Rightarrow> validate_items snapshot);
          (resA, db1) = (case validA of
                           Inl e \<Rightarrow> (Inl e, db) | Inr ls \<Rightarrow> placeOrder_tx userA bodyA ls db);
          (resB, db2) = (case validB of
                           Inl e \<Rightarrow> (Inl e, db1) | Inr ls \<Rightarrow> placeOrder_tx userB bodyB ls db1)
      in (resA, resB, db2))"

section \<open>Quantities of a product over the lines of a cart or an order\<close>

definition ordered_qty :: "product_id \<Rightarrow> cartItem list \<Rightarrow> int" where
  "ordered_qty pid its = sum_list (map ci_quantity (filter (\<lambda>i. ci_productId i = pid) its))"

definition restored_qty :: "product_id \<Rightarrow> orderItem list \<Rightarrow> int" where
  "restored_qty pid its = sum_list (map oi_quantity (filter (\<lambda>i. oi_productId i = pid) its))"

definition price_of :: "database \<Rightarrow> product_id \<Rightarrow> rat" where
  "price_of db pid = (case products db pid of None \<Rightarrow> 0 | Some p \<Rightarrow> p_price p)"

text \<open>
  The total of the lines of a cart in double precision: price times quantity of each line,
  added up from zero in cart order, times 100, rounded to an integer, divided by 100.
\<close>

definition line_amount :: "database \<Rightarrow> cartItem \<Rightarrow> js_number" where
  "line_amount db item =
     js_mul (Finite (price_of db (ci_productId item))) (js_number_of_int (ci_quantity item))"

definition double_total :: "database \<Rightarrow> cartItem list \<Rightarrow> js_number" where
  "double_total db its =
     js_div_100 (Math_round
       (js_mul (foldl js_add (Finite 0) (map (line_amount db) its)) (Finite 100)))"

text \<open>
  The sum of price times quantity over the lines as a rational, and a rational rounded to
  two decimal places, halves up.
\<close>

definition exact_total :: "database \<Rightarrow> cartItem list \<Rightarrow> rat" where
  "exact_total db its =
     (\<Sum>item\<leftarrow>its. price_of db (ci_productId item) * of_int (ci_quantity item))"

definition two_decimals :: "rat \<Rightarrow> rat" where
  "two_decimals x = of_int \<lfloor>x * 100 + 1 / 2\<rfloor> / 100"

text \<open>The lines of a cart joined with their products, as far as the products exist.\<close>

definition joined :: "database \<Rightarrow> cartItem list \<Rightarrow> (cartItem \<times> product) list" where
  "joined db its =
     concat (map (\<lambda>item. case products db (ci_productId item) of
                            None \<Rightarrow> [] | Some p \<Rightarrow> [(item, p)]) its)"

text \<open>A line that the validation loop rejects.\<close>

definition offending :: "database \<Rightarrow> cartItem \<Rightarrow> bool" where
  "offending db item =
     (case products db (ci_productId item) of
        None \<Rightarrow> False
      | Some p \<Rightarrow> \<not> p_isActive p \<or> p_stock p < ci_quantity item)"

definition status_name :: "order_status \<Rightarrow> string" where
  "status_name st =
     (case st of PENDING \<Rightarrow> ''PENDING'' | CONFIRMED \<Rightarrow> ''CONFIRMED''
      | PROCESSING \<Rightarrow> ''PROCESSING'' | SHIPPED \<Rightarrow> ''SHIPPED'' | DELIVERED \<Rightarrow> ''DELIVERED''
      | CANCELLED \<Rightarrow> ''CANCELLED'' | REFUNDED \<Rightarrow> ''REFUNDED'')"

section \<open>Example stores\<close>

definition alice :: req_user where
  "alice = \<lparr>userId = ''alice'', role = ''USER''\<rparr>"

definition bob :: req_user where
  "bob = \<lparr>userId = ''bob'', role = ''USER''\<rparr>"

definition shirt :: product where
  "shirt = \<lparr>p_name = ''Shirt'', p_price = 39 / 2, p_stock = 5, p_isActive = True\<rparr>"

definition checkout :: order_body where
  "checkout = \<lparr>ob_shippingAddress = Some ''1 Main St'', ob_paymentMethod = None, ob_notes = None\<rparr>"

definition add_plain :: "int \<Rightarrow> cart_body" where
  "add_plain q = \<lparr>cb_productId = Some ''p'', cb_quantity = Some q, cb_customDesign = None\<rparr>"

definition add_custom :: "int \<Rightarrow> cart_body" where
  "add_custom q =
     \<lparr>cb_productId = Some ''p'', cb_quantity = Some q, cb_customDesign = Some ''logo''\<rparr>"

text \<open>One product with five units in stock; no carts, no orders.\<close>

definition db_shop :: database where
  "db_shop = \<lparr>products = [''p'' \<mapsto> shirt], carts = Map.empty, orders = Map.empty, next_id = 0\<rparr>"

text \<open>Alice has added three customised and three plain units of the product.\<close>

definition db_two_lines :: database where
  "db_two_lines = snd (addToCart alice (add_plain 3) (snd (addToCart alice (add_custom 3) db_shop)))"

text \<open>One unit left; Alice and Bob each hold it in their cart.\<close>

definition db_last_unit :: database where
  "db_last_unit =
     \<lparr>products = [''p'' \<mapsto> shirt\<lparr>p_stock := 1\<rparr>],
      carts = [''alice'' \<mapsto> [\<lparr>ci_id = 0, ci_productId = ''p'', ci_quantity = 1,
                                ci_customDesign = None\<rparr>],
               ''bob'' \<mapsto> [\<lparr>ci_id = 1, ci_productId = ''p'', ci_quantity = 1,
                              ci_customDesign = None\<rparr>]],
      orders = Map.empty, next_id = 2\<rparr>"

text \<open>
  A pending order of Alice with a line for the product and a line for a product that is
  not in the catalogue.
\<close>

definition order_gone :: order where
  "order_gone =
     \<lparr>o_id = 0, o_userId = ''alice'', o_total = 50, o_status = PENDING,
      o_paymentStatus = None, o_shippingAddress = Some ''1 Main St'', o_paymentMethod = ''cod'',
      o_notes = None,
      o_items = [\<lparr>oi_productId = ''p'', oi_quantity = 2, oi_price = 20, oi_customDesign = None\<rparr>,
                 \<lparr>oi_productId = ''gone'', oi_quantity = 1, oi_price = 10,
                  oi_customDesign = None\<rparr>]\<rparr>"

definition db_gone :: database where
  "db_gone =
     \<lparr>products = [''p'' \<mapsto> shirt], carts = Map.empty, orders = [0 \<mapsto> order_gone], next_id = 1\<rparr>"

text \<open>Alice holds five units in her cart, all that is in stock; then six.\<close>

definition db_exact :: database where
  "db_exact =
     \<lparr>products = [''p'' \<mapsto> shirt],
      carts = [''alice'' \<mapsto> [\<lparr>ci_id = 0, ci_productId = ''p'', ci_quantity = 5,
                                ci_customDesign = None\<rparr>]],
      orders = Map.empty, next_id = 1\<rparr>"

definition db_over :: database where
  "db_over =
     \<lparr>products = [''p'' \<mapsto> shirt],
      carts = [''alice'' \<mapsto> [\<lparr>ci_id = 0, ci_productId = ''p'', ci_quantity = 6,
                                ci_customDesign = None\<rparr>]],
      orders = Map.empty, next_id = 1\<rparr>"

text \<open>The order that Alice's five units become, the store after it and after its cancellation.\<close>

definition order_five :: order where
  "order_five =
     \<lparr>o_id = 1, o_userId = ''alice'', o_total = 195 / 2, o_status = PENDING,
      o_paymentStatus = None, o_shippingAddress = Some ''1 Main St'', o_paymentMethod = ''cod'',
      o_notes = None,
      o_items = [\<lparr>oi_productId = ''p'', oi_quantity = 5, oi_price = 39 / 2,
                  oi_customDesign = None\<rparr>]\<rparr>"

text \<open>
  A sticker at 0.251, which as a double is 2260807012939989 / 2 ^ 53, and five of them in
  Alice's cart.
\<close>

definition sticker :: product where
  "sticker =
     \<lparr>p_name = ''Sticker'', p_price = 2260807012939989 / 9007199254740992, p_stock = 5,
      p_isActive = True\<rparr>"

definition db_sticker :: database where
  "db_sticker =
     \<lparr>products = [''s'' \<mapsto> sticker],
      carts = [''alice'' \<mapsto> [\<lparr>ci_id = 0, ci_productId = ''s'', ci_quantity = 5,
                                ci_customDesign = None\<rparr>]],
      orders = Map.empty, next_id = 1\<rparr>"

definition db_placed :: database where
  "db_placed = snd (placeOrder alice checkout db_exact)"

definition db_cancelled :: database where
  "db_cancelled = snd (cancelOrder alice 1 db_placed)"

section \<open>The double nearest to a rational\<close>

lemma pow2_powi: "pow2 k = 2 powi k"
  by (simp add: pow2_def power_int_def field_simps)

lemma pow2_pos: "0 < pow2 k"
  by (simp add: pow2_powi)

lemma pow2_add: "pow2 (a + b) = pow2 a * pow2 b"
  by (simp add: pow2_powi power_int_add)

lemma pow2_mono: "a \<le> b \<Longrightarrow> pow2 a \<le> pow2 b"
  by (simp add: pow2_powi power_int_increasing)

lemma bit_length_bounds:
  "0 < n \<Longrightarrow> 1 \<le> bit_length n \<and> pow2 (bit_length n - 1) \<le> of_int n \<and> of_int n < pow2 (bit_length n)"
proof (induction n rule: bit_length.induct)
  case (1 n)
  show ?case
  proof (cases "n = 1")
    case True
    then show ?thesis by (simp add: pow2_def bit_length.simps [of 1] bit_length.simps [of 0])
  next
    case False
    with "1.prems" have h: "0 < n div 2" by simp
    with "1.IH" "1.prems" have IH: "1 \<le> bit_length (n div 2)"
      "pow2 (bit_length (n div 2) - 1) \<le> of_int (n div 2)"
      "of_int (n div 2) < pow2 (bit_length (n div 2))"
      by simp_all
    have bl: "bit_length n = 1 + bit_length (n div 2)"
      using "1.prems" by (subst bit_length.simps) simp
    have p: "pow2 (bit_length n - 1) = 2 * pow2 (bit_length (n div 2) - 1)"
      "pow2 (bit_length n) = 2 * pow2 (bit_length (n div 2))"
      using pow2_add [of 1 "bit_length (n div 2) - 1"] pow2_add [of 1 "bit_length (n div 2)"]
      by (simp_all add: bl pow2_def)
    have lo: "2 * (n div 2) \<le> n" and hi: "n < 2 * (n div 2 + 1)"
      by presburger+
    from IH(2) have "2 * pow2 (bit_length (n div 2) - 1) \<le> of_int (2 * (n div 2))"
      by simp
    also from lo have "\<dots> \<le> of_int n"
      by (simp only: of_int_le_iff)
    finally have A: "pow2 (bit_length n - 1) \<le> of_int n"
      by (simp add: p)
    obtain m :: nat where m: "bit_length (n div 2) = int m"
      using IH(1) by (metis nonneg_int_cases order_trans zero_le_one)
    from IH(3) have "n div 2 < 2 ^ m"
      by (simp add: m pow2_def)
    then have "n div 2 + 1 \<le> 2 ^ m" by simp
    with hi have "n < 2 * 2 ^ m" by linarith
    then have "(of_int n :: rat) < of_int (2 * 2 ^ m)"
      by (simp only: of_int_less_iff)
    moreover have "pow2 (bit_length (n div 2)) = 2 ^ m"
      by (simp add: m pow2_def)
    ultimately have "of_int n < 2 * pow2 (bit_length (n div 2))"
      by simp
    then have B: "of_int n < pow2 (bit_length n)"
      by (simp only: p(2))
    from A B bl IH(1) show ?thesis by simp
  qed
qed

lemma ilog2_bounds:
  assumes "x \<noteq> 0"
  shows "pow2 (ilog2 x) \<le> \<bar>x\<bar> \<and> \<bar>x\<bar> < pow2 (ilog2 x + 1)"
proof -
  obtain n d where q: "quotient_of \<bar>x\<bar> = (n, d)"
    by (cases "quotient_of \<bar>x\<bar>")
  then have d: "0 < d" and x: "\<bar>x\<bar> = of_int n / of_int d"
    by (auto dest: quotient_of_denom_pos quotient_of_div)
  have n: "0 < n"
  proof (rule ccontr)
    assume "\<not> 0 < n"
    then have "(of_int n :: rat) \<le> 0" by simp
    with d have "of_int n / (of_int d :: rat) \<le> 0"
      by (simp add: divide_nonpos_pos)
    with x assms show False by simp
  qed
  let ?k = "bit_length n - bit_length d"
  note bn = bit_length_bounds [OF n] and bd = bit_length_bounds [OF d]
  have dpos: "(0::rat) < of_int d" using d by simp
  have "of_int n < pow2 (bit_length n)" using bn by simp
  also have "\<dots> = pow2 (?k + 1) * pow2 (bit_length d - 1)"
    using pow2_add [of "?k + 1" "bit_length d - 1"] by simp
  also have "\<dots> \<le> pow2 (?k + 1) * of_int d"
    using bd pow2_pos [of "?k + 1"] by (simp add: mult_left_mono)
  finally have hi: "\<bar>x\<bar> < pow2 (?k + 1)"
    using dpos by (simp add: x pos_divide_less_eq)
  have "pow2 (?k - 1) * of_int d < pow2 (?k - 1) * pow2 (bit_length d)"
    using bd pow2_pos [of "?k - 1"] by (simp add: mult_strict_left_mono)
  also have "\<dots> = pow2 (bit_length n - 1)"
    using pow2_add [of "?k - 1" "bit_length d"] by simp
  also have "\<dots> \<le> of_int n" using bn by simp
  finally have lo: "pow2 (?k - 1) < \<bar>x\<bar>"
    using dpos by (simp add: x pos_less_divide_eq)
  show ?thesis
  proof (cases "pow2 ?k \<le> \<bar>x\<bar>")
    case True
    with hi q show ?thesis by (simp add: ilog2_def Let_def)
  next
    case False
    with lo q show ?thesis by (simp add: ilog2_def Let_def)
  qed
qed

lemma round_half_even_close: "\<bar>of_int (round_half_even x) - x\<bar> \<le> 1 / 2"
proof -
  have "of_int \<lfloor>x\<rfloor> \<le> x" "x < of_int \<lfloor>x\<rfloor> + 1"
    by linarith+
  then show ?thesis
    by (auto simp: round_half_even_def Let_def)
qed

lemma round_double_close:
  assumes "round_double x = Finite y"
  shows "\<bar>y - x\<bar> \<le> pow2 (max (ilog2 x) (- 1022) - 53)"
proof (cases "x = 0")
  case True
  with assms show ?thesis
    using pow2_pos [of "max (ilog2 x) (- 1022) - 53"] by (simp add: round_double_def)
next
  case False
  let ?u = "pow2 (max (ilog2 x) (- 1022) - 52)"
  have u: "0 < ?u" by (rule pow2_pos)
  from assms False have y: "y = of_int (round_half_even (x / ?u)) * ?u"
    by (simp add: round_double_def Let_def split: if_splits)
  have "\<bar>y - x\<bar> = \<bar>of_int (round_half_even (x / ?u)) - x / ?u\<bar> * ?u"
  proof -
    have "y - x = (of_int (round_half_even (x / ?u)) - x / ?u) * ?u"
      using u by (simp add: y left_diff_distrib)
    then show ?thesis
      using u by (simp add: abs_mult)
  qed
  also have "\<dots> \<le> 1 / 2 * ?u"
    using u round_half_even_close [of "x / ?u"] by (simp add: mult_right_mono)
  also have "\<dots> = pow2 (max (ilog2 x) (- 1022) - 53)"
    using pow2_add [of "- 1" "max (ilog2 x) (- 1022) - 52"] by (simp add: pow2_def)
  finally show ?thesis .
qed

lemma round_double_range:
  assumes "round_double x = Finite y"
  shows "\<bar>y\<bar> < pow2 1024"
proof (cases "y = 0")
  case True
  then show ?thesis by (simp add: pow2_pos)
next
  case False
  with assms have "ilog2 y + 1 \<le> 1024"
    by (auto simp: round_double_def Let_def split: if_splits)
  then have "pow2 (ilog2 y + 1) \<le> pow2 1024"
    by (rule pow2_mono)
  with ilog2_bounds [OF False] show ?thesis
    by simp
qed

text \<open>
  Some values: 0.1 as a double, 0.1 + 0.2, ties going to the even significand at
  \<open>2 ^ 53\<close>, and 1.005 * 100, which is below 100.5.
\<close>

lemma double_examples:
  "round_double (1 / 10) = Finite (3602879701896397 / 36028797018963968)"
  "js_add (Finite (3602879701896397 / 36028797018963968))
     (Finite (3602879701896397 / 18014398509481984))
     = Finite (1351079888211149 / 4503599627370496)"
  "round_double 9007199254740993 = Finite 9007199254740992"
  "round_double 9007199254740995 = Finite 9007199254740996"
  "round_double (201 / 200) = Finite (1131529406376837 / 1125899906842624)"
  "js_mul (Finite (1131529406376837 / 1125899906842624)) (Finite 100)
     = Finite (7072058789855231 / 70368744177664)"
  "round2 (Finite (1131529406376837 / 1125899906842624)) = Finite 1"
  by code_simp+

section \<open>The loops of the two transactions\<close>

lemma decrement_stock_ok:
  "\<forall>item\<in>set its. ps (ci_productId item) \<noteq> None \<Longrightarrow>
   decrement_stock ps its =
     Inr (\<lambda>pid. map_option (\<lambda>p. p\<lparr>p_stock := p_stock p - ordered_qty pid its\<rparr>) (ps pid))"
proof (induction its arbitrary: ps)
  case Nil
  have "(\<lambda>pid. map_option (\<lambda>p. p\<lparr>p_stock := p_stock p - ordered_qty pid []\<rparr>) (ps pid)) = ps"
    by (rule ext) (simp add: ordered_qty_def option.map_ident)
  then show ?case by simp
next
  case (Cons item rest)
  from Cons.prems obtain p where p: "ps (ci_productId item) = Some p"
    by auto
  let ?ps = "ps(ci_productId item \<mapsto> p\<lparr>p_stock := p_stock p - ci_quantity item\<rparr>)"
  from Cons.prems have "\<forall>i\<in>set rest. ?ps (ci_productId i) \<noteq> None"
    by auto
  then have IH: "decrement_stock ?ps rest =
      Inr (\<lambda>pid. map_option (\<lambda>p. p\<lparr>p_stock := p_stock p - ordered_qty pid rest\<rparr>) (?ps pid))"
    by (rule Cons.IH)
  have "(\<lambda>pid. map_option (\<lambda>p. p\<lparr>p_stock := p_stock p - ordered_qty pid rest\<rparr>) (?ps pid)) =
        (\<lambda>pid. map_option (\<lambda>p. p\<lparr>p_stock := p_stock p - ordered_qty pid (item # rest)\<rparr>) (ps pid))"
    using p by (intro ext) (simp add: ordered_qty_def algebra_simps)
  with IH p show ?case by simp
qed

lemma increment_stock_ok:
  "\<forall>item\<in>set its. ps (oi_productId item) \<noteq> None \<Longrightarrow>
   increment_stock ps its =
     Inr (\<lambda>pid. map_option (\<lambda>p. p\<lparr>p_stock := p_stock p + restored_qty pid its\<rparr>) (ps pid))"
proof (induction its arbitrary: ps)
  case Nil
  have "(\<lambda>pid. map_option (\<lambda>p. p\<lparr>p_stock := p_stock p + restored_qty pid []\<rparr>) (ps pid)) = ps"
    by (rule ext) (simp add: restored_qty_def option.map_ident)
  then show ?case by simp
next
  case (Cons item rest)
  from Cons.prems obtain p where p: "ps (oi_productId item) = Some p"
    by auto
  let ?ps = "ps(oi_productId item \<mapsto> p\<lparr>p_stock := p_stock p + oi_quantity item\<rparr>)"
  from Cons.prems have "\<forall>i\<in>set rest. ?ps (oi_productId i) \<noteq> None"
    by auto
  then have IH: "increment_stock ?ps rest =
      Inr (\<lambda>pid. map_option (\<lambda>p. p\<lparr>p_stock := p_stock p + restored_qty pid rest\<rparr>) (?ps pid))"
    by (rule Cons.IH)
  have "(\<lambda>pid. map_option (\<lambda>p. p\<lparr>p_stock := p_stock p + restored_qty pid rest\<rparr>) (?ps pid)) =
        (\<lambda>pid. map_option (\<lambda>p. p\<lparr>p_stock := p_stock p + restored_qty pid (item # rest)\<rparr>) (ps pid))"
    using p by (intro ext) (simp add: restored_qty_def algebra_simps)
  with IH p show ?case by simp
qed

lemma validate_items_ok:
  "\<forall>item\<in>set its. \<exists>p. products db (ci_productId item) = Some p \<and> p_isActive p
                        \<and> ci_quantity item \<le> p_stock p \<Longrightarrow>
   validate_items (include_product db its) = Inr (joined db its)"
proof (induction its)
  case Nil
  then show ?case by (simp add: include_product_def joined_def)
next
  case (Cons item rest)
  then obtain p where "products db (ci_productId item) = Some p" "p_isActive p"
      "ci_quantity item \<le> p_stock p"
    by auto
  moreover from Cons have "validate_items (include_product db rest) = Inr (joined db rest)"
    by simp
  ultimately show ?case
    by (simp add: include_product_def joined_def)
qed

lemma validate_items_Inr:
  "validate_items (include_product db its) = Inr ls \<Longrightarrow>
   ls = joined db its \<and> (\<forall>item\<in>set its. products db (ci_productId item) \<noteq> None)"
proof (induction its arbitrary: ls)
  case Nil
  then show ?case by (simp add: include_product_def joined_def)
next
  case (Cons item rest)
  from Cons.prems obtain p where p: "products db (ci_productId item) = Some p"
    by (cases "products db (ci_productId item)") (auto simp: include_product_def)
  with Cons.prems obtain ls' where ls': "validate_items (include_product db rest) = Inr ls'"
    and ls: "ls = (item, p) # ls'"
    by (auto simp: include_product_def split: if_splits sum.splits)
  from Cons.IH [OF ls'] p ls show ?case
    by (simp add: joined_def)
qed

lemma map_fst_joined:
  "\<forall>item\<in>set its. products db (ci_productId item) \<noteq> None \<Longrightarrow> map fst (joined db its) = its"
  by (induction its) (auto simp: joined_def)

lemma order_items_joined:
  assumes "\<forall>item\<in>set its. products db (ci_productId item) \<noteq> None"
  shows "map oi_productId (map order_item_of (joined db its)) = map ci_productId its"
    and "map oi_quantity (map order_item_of (joined db its)) = map ci_quantity its"
    and "map oi_customDesign (map order_item_of (joined db its)) = map ci_customDesign its"
    and "map oi_price (map order_item_of (joined db its)) =
           map (\<lambda>item. price_of db (ci_productId item)) its"
  using assms by (induction its) (auto simp: joined_def order_item_of_def price_of_def)

lemma cart_total_joined:
  assumes "\<forall>item\<in>set its. products db (ci_productId item) \<noteq> None"
  shows "round2 (cart_total (joined db its)) = double_total db its"
proof -
  have "foldl (\<lambda>sum (item, p).
                 js_add sum (js_mul (Finite (p_price p)) (js_number_of_int (ci_quantity item))))
          a (joined db its)
        = foldl js_add a (map (line_amount db) its)" for a
    using assms
    by (induction its arbitrary: a) (auto simp: joined_def line_amount_def price_of_def)
  then show ?thesis
    by (simp add: cart_total_def round2_def double_total_def)
qed

lemma restored_qty_order_items:
  "\<forall>item\<in>set its. products db (ci_productId item) \<noteq> None \<Longrightarrow>
   restored_qty pid (map order_item_of (joined db its)) = ordered_qty pid its"
  by (induction its) (auto simp: joined_def order_item_of_def restored_qty_def ordered_qty_def)

lemma double_total_cents:
  assumes "double_total db its = Finite t"
  shows "\<exists>k::int. round_double (of_int k / 100) = Finite t"
proof (cases "js_mul (foldl js_add (Finite 0) (map (line_amount db) its)) (Finite 100)")
  case (Finite v)
  with assms have "round_double (of_int \<lfloor>v + 1 / 2\<rfloor> / 100) = Finite t"
    by (simp add: double_total_def)
  then show ?thesis ..
qed (use assms in \<open>simp_all add: double_total_def\<close>)

lemma increment_stock_missing:
  "\<exists>item\<in>set its. ps (oi_productId item) = None \<Longrightarrow> increment_stock ps its = Inl RecordNotFound"
proof (induction its arbitrary: ps)
  case Nil
  then show ?case by simp
next
  case (Cons item rest)
  show ?case
  proof (cases "ps (oi_productId item)")
    case None
    then show ?thesis by simp
  next
    case (Some p)
    let ?ps = "ps(oi_productId item \<mapsto> p\<lparr>p_stock := p_stock p + oi_quantity item\<rparr>)"
    from Cons.prems Some obtain other where
      "other \<in> set rest" and "ps (oi_productId other) = None"
      by auto
    with Some have "\<exists>i\<in>set rest. ?ps (oi_productId i) = None"
      by (intro bexI [of _ other]) auto
    then have "increment_stock ?ps rest = Inl RecordNotFound"
      by (rule Cons.IH)
    with Some show ?thesis by simp
  qed
qed

lemma validate_items_first_offending:
  assumes "\<forall>item\<in>set its. products db (ci_productId item) \<noteq> None"
      and "find (offending db) its = Some bad"
      and "products db (ci_productId bad) = Some p"
  shows "validate_items (include_product db its) =
           Inl (if \<not> p_isActive p then ProductUnavailable (p_name p)
                else InsufficientStock (p_stock p))"
  using assms
proof (induction its)
  case Nil
  then show ?case by simp
next
  case (Cons item rest)
  from Cons.prems(1) obtain q where q: "products db (ci_productId item) = Some q"
    by auto
  show ?case
  proof (cases "offending db item")
    case True
    with Cons.prems(2) have "bad = item" by simp
    with q Cons.prems(3) have "q = p" by simp
    with True q show ?thesis
      by (simp add: include_product_def offending_def)
  next
    case False
    with Cons.prems(2) have "find (offending db) rest = Some bad" by simp
    with Cons.IH Cons.prems have
      "validate_items (include_product db rest) =
         Inl (if \<not> p_isActive p then ProductUnavailable (p_name p)
              else InsufficientStock (p_stock p))"
      by simp
    with False q show ?thesis
      by (simp add: include_product_def offending_def)
  qed
qed

lemma placeOrder_tx_ok:
  assumes "\<forall>item\<in>set its. products db (ci_productId item) \<noteq> None"
      and "double_total db its = Finite amount"
  shows "placeOrder_tx user body (joined db its) db =
     (Inr \<lparr>o_id = next_id db, o_userId = userId user,
           o_total = amount, o_status = default_status,
           o_paymentStatus = None, o_shippingAddress = ob_shippingAddress body,
           o_paymentMethod = js_or (ob_paymentMethod body) ''cod'',
           o_notes = ob_notes body, o_items = map order_item_of (joined db its)\<rparr>,
      db\<lparr>products := (\<lambda>pid. map_option (\<lambda>p. p\<lparr>p_stock := p_stock p - ordered_qty pid its\<rparr>)
                                    (products db pid)),
         carts := (case carts db (userId user) of
                     None \<Rightarrow> carts db
                   | Some _ \<Rightarrow> (carts db)(userId user \<mapsto> [])),
         orders := (orders db)(next_id db \<mapsto>
           \<lparr>o_id = next_id db, o_userId = userId user,
            o_total = amount, o_status = default_status,
            o_paymentStatus = None, o_shippingAddress = ob_shippingAddress body,
            o_paymentMethod = js_or (ob_paymentMethod body) ''cod'',
            o_notes = ob_notes body, o_items = map order_item_of (joined db its)\<rparr>),
         next_id := Suc (next_id db)\<rparr>)"
  using decrement_stock_ok [OF assms(1)] map_fst_joined [OF assms(1)]
    cart_total_joined [OF assms(1)] assms(2)
  by (simp add: placeOrder_tx_def Let_def)

lemma placeOrder_tx_Inr:
  assumes "placeOrder_tx user body ls db = (Inr ord, db1)"
  shows "\<exists>amount. round2 (cart_total ls) = Finite amount"
  using assms by (cases "round2 (cart_total ls)") (simp_all add: placeOrder_tx_def)

lemma placeOrder_Inr:
  assumes "placeOrder user body db = (Inr ord, db1)"
  shows "\<exists>its. (\<forall>item\<in>set its. products db (ci_productId item) \<noteq> None)
           \<and> placeOrder_tx user body (joined db its) db = (Inr ord, db1)"
proof -
  from assms obtain snapshot ls where
    rd: "placeOrder_read user body db = Inr snapshot"
    and va: "validate_items snapshot = Inr ls"
    and tx: "placeOrder_tx user body ls db = (Inr ord, db1)"
    by (auto simp: placeOrder_def split: sum.splits)
  from rd obtain its where "snapshot = include_product db its"
    by (auto simp: placeOrder_read_def split: if_splits option.splits)
  with va validate_items_Inr [of db its ls] tx show ?thesis
    by auto
qed

lemma cancelOrder_ok:
  assumes "orders db oid = Some ord"
      and "o_userId ord = userId user \<or> role user = ''ADMIN''"
      and "o_status ord = PENDING \<or> o_status ord = CONFIRMED"
      and "\<forall>item\<in>set (o_items ord). products db (oi_productId item) \<noteq> None"
  shows "cancelOrder user oid db =
           (Inr (),
            db\<lparr>products := (\<lambda>pid. map_option
                     (\<lambda>p. p\<lparr>p_stock := p_stock p + restored_qty pid (o_items ord)\<rparr>)
                     (products db pid)),
               orders := (orders db)(oid \<mapsto> ord\<lparr>o_status := CANCELLED\<rparr>)\<rparr>)"
  using assms(1-3) increment_stock_ok [OF assms(4)]
  by (auto simp: cancelOrder_def)

lemma status_named_status_name: "status_named (status_name st) = Some st"
  by (cases st) (hypsubst, code_simp)+

text \<open>
  Some strings: lower case, an unknown word, a long s (U+017F), a sharp s (U+00DF), the
  ligature fi (U+FB01), and an e with an acute accent (U+00E9), whose upper case is not
  ASCII.
\<close>

lemma status_named_examples:
  "status_named ''shipped'' = Some SHIPPED"
  "status_named ''Sent'' = None"
  "status_named ([CHR 0xC5, CHR 0xBF] @ ''hipped'') = Some SHIPPED"
  "status_named (''proce'' @ [CHR 0xC3, CHR 0x9F] @ ''ing'') = Some PROCESSING"
  "status_named (''con'' @ [CHR 0xEF, CHR 0xAC, CHR 0x81] @ ''rmed'') = Some CONFIRMED"
  "status_named (''d'' @ [CHR 0xC3, CHR 0xA9] @ ''livered'') = None"
  by code_simp+

lemma status_name_nonempty: "status_name st \<noteq> []"
  by (cases st; simp add: status_name_def)

section \<open>Adding to the cart\<close>

lemma cart_items_ensure_cart [simp]: "cart_items uid (ensure_cart uid db) = cart_items uid db"
  by (simp add: cart_items_def ensure_cart_def split: option.splits)

lemma addToCart_create:
  assumes "cb_productId body = Some pid" and "pid \<noteq> []"
      and "products db pid = Some prd" and "p_isActive prd"
      and "cb_quantity body = Some q" and "q \<le> p_stock prd"
      and "truthy (cb_customDesign body)
           \<or> find (\<lambda>i. ci_productId i = pid \<and> ci_customDesign i = None)
                (cart_items (userId user) db) = None"
  shows "addToCart user body db =
           (Inr \<lparr>ci_id = next_id db, ci_productId = pid, ci_quantity = q,
                 ci_customDesign = (if truthy (cb_customDesign body) then cb_customDesign body
                                    else None)\<rparr>,
            db\<lparr>carts := (carts db)(userId user \<mapsto> cart_items (userId user) db @
                   [\<lparr>ci_id = next_id db, ci_productId = pid, ci_quantity = q,
                     ci_customDesign = (if truthy (cb_customDesign body)
                                        then cb_customDesign body else None)\<rparr>]),
               next_id := Suc (next_id db)\<rparr>)"
proof -
  have n: "next_id (ensure_cart (userId user) db) = next_id db"
    by (simp add: ensure_cart_def split: option.splits)
  have c: "\<And>its. (ensure_cart (userId user) db)
              \<lparr>carts := (carts (ensure_cart (userId user) db))(userId user \<mapsto> its),
               next_id := Suc (next_id db)\<rparr>
            = db\<lparr>carts := (carts db)(userId user \<mapsto> its), next_id := Suc (next_id db)\<rparr>"
    by (simp add: ensure_cart_def split: option.splits)
  from assms show ?thesis
    by (auto simp: addToCart_def Let_def n c)
qed

lemma addToCart_merge:
  assumes "cb_productId body = Some pid" and "pid \<noteq> []"
      and "products db pid = Some prd" and "p_isActive prd"
      and "cb_quantity body = Some q"
      and "\<not> truthy (cb_customDesign body)"
      and "find (\<lambda>i. ci_productId i = pid \<and> ci_customDesign i = None)
             (cart_items (userId user) db) = Some ex"
  shows "addToCart user body db =
           (if q \<le> p_stock prd \<and> ci_quantity ex + q \<le> p_stock prd
            then (Inr (ex\<lparr>ci_quantity := ci_quantity ex + q\<rparr>),
                  db\<lparr>carts := (carts db)(userId user \<mapsto>
                        map (\<lambda>i. if ci_id i = ci_id ex
                                  then ex\<lparr>ci_quantity := ci_quantity ex + q\<rparr> else i)
                          (cart_items (userId user) db))\<rparr>)
            else (Inl (InsufficientStock (p_stock prd)), db))"
proof -
  from assms(7) have "carts db (userId user) \<noteq> None"
    by (auto simp: cart_items_def split: option.splits)
  then have e: "ensure_cart (userId user) db = db"
    by (auto simp: ensure_cart_def)
  from assms show ?thesis
    by (simp add: addToCart_def Let_def e)
qed

lemma find_last_plain:
  assumes "\<forall>i\<in>set its. ci_productId i = pid \<longrightarrow> ci_customDesign i \<noteq> None"
  shows "find (\<lambda>i. ci_productId i = pid \<and> ci_customDesign i = None) its = None"
    and "ci_productId l = pid \<Longrightarrow> ci_customDesign l = None \<Longrightarrow>
         find (\<lambda>i. ci_productId i = pid \<and> ci_customDesign i = None) (its @ [l]) = Some l"
    and "ci_customDesign c \<noteq> None \<Longrightarrow>
         find (\<lambda>i. ci_productId i = pid \<and> ci_customDesign i = None) (its @ [c]) = None"
  using assms by (induction its) auto

lemma map_replace_absent:
  "\<forall>i\<in>set its. ci_id i \<noteq> k \<Longrightarrow> map (\<lambda>i. if ci_id i = k then l' else i) its = its"
  by (induction its) auto

section \<open>Stock below zero\<close>

text \<open>
  C1. The claim: the stock of a product is never negative after any sequence of addToCart,
  placeOrder and cancelOrder, also when a cart holds a customised and a plain line for the
  same product. The code checks each line against the stock on its own and then decrements
  line after line: with five units in stock, a customised line of three and a plain line of
  three, both added through addToCart, the order is placed and the stock is -1.
\<close>

theorem placeOrder_two_lines_stock_negative:
  "fst (addToCart alice (add_custom 3) db_shop) =
     Inr \<lparr>ci_id = 0, ci_productId = ''p'', ci_quantity = 3, ci_customDesign = Some ''logo''\<rparr>
   \<and> fst (addToCart alice (add_plain 3) (snd (addToCart alice (add_custom 3) db_shop))) =
     Inr \<lparr>ci_id = 1, ci_productId = ''p'', ci_quantity = 3, ci_customDesign = None\<rparr>
   \<and> map_option p_stock (products db_two_lines ''p'') = Some 5
   \<and> \<not> isl (fst (placeOrder alice checkout db_two_lines))
   \<and> map_option p_stock (products (snd (placeOrder alice checkout db_two_lines)) ''p'')
       = Some (- 1)"
  by code_simp

section \<open>Quantities of cart lines\<close>

text \<open>
  C7. The claim: after every cart operation every line has a quantity of at least one, and
  addToCart never creates or leaves a line with a quantity of zero or less. updateCartItem
  rejects a quantity below one; addToCart only compares the quantity with the stock, so a
  request for zero units creates a line of quantity zero, and a request for minus five
  units after one for three leaves a line of quantity minus two.
\<close>

theorem addToCart_nonpositive_quantity:
  "carts (snd (addToCart alice (add_plain 0) db_shop)) ''alice'' =
     Some [\<lparr>ci_id = 0, ci_productId = ''p'', ci_quantity = 0, ci_customDesign = None\<rparr>]
   \<and> carts (snd (addToCart alice (add_plain (- 5)) (snd (addToCart alice (add_plain 3) db_shop))))
       ''alice'' =
     Some [\<lparr>ci_id = 0, ci_productId = ''p'', ci_quantity = - 2, ci_customDesign = None\<rparr>]
   \<and> fst (updateCartItem alice 0 \<lparr>qb_quantity = Some 0\<rparr>
            (snd (addToCart alice (add_plain 3) db_shop))) = Inl InvalidArgument"
  by code_simp

section \<open>The last unit, ordered twice\<close>

text \<open>
  C9. The claim: of two concurrent placeOrder calls for the last unit of a product exactly
  one succeeds, the other fails with InsufficientStock, and the stock ends at zero. The
  stock check is made on the lines read before the transaction and the decrement inside
  the transaction is unconditional. One request after the other behaves as claimed; when
  both requests read before either commits, both orders are placed and the stock ends
  at -1.
\<close>

theorem placeOrder_interleaved_oversells:
  "map_option p_stock (products db_last_unit ''p'') = Some 1
   \<and> \<not> isl (fst (placeOrder alice checkout db_last_unit))
   \<and> fst (placeOrder bob checkout (snd (placeOrder alice checkout db_last_unit)))
       = Inl (InsufficientStock 0)
   \<and> \<not> isl (fst (placeOrder_interleaved alice checkout bob checkout db_last_unit))
   \<and> \<not> isl (fst (snd (placeOrder_interleaved alice checkout bob checkout db_last_unit)))
   \<and> map_option p_stock
       (products (snd (snd (placeOrder_interleaved alice checkout bob checkout db_last_unit))) ''p'')
       = Some (- 1)"
  by code_simp

section \<open>Placing an order\<close>

text \<open>
  C2. The claim: with a shipping address, an existing cart that is not empty, and every
  line's product active and in stock for the line's quantity, placeOrder succeeds; the
  order is PENDING, its lines copy the cart lines with the prices of this moment, its total
  is the sum of price times quantity rounded to two decimal places, the stock is lowered by
  the ordered quantities and the cart is empty. The total is computed in double precision
  and is not always that sum rounded: five stickers at 0.251 get a total of 1.25, more than
  half a cent from the sum, which rounds to 1.26. As amended, the total is the sum in
  double precision (each product and each partial sum, in cart order, rounded to a double),
  times 100, rounded to an integer with halves up, divided by 100; placeOrder succeeds when
  this total is finite, and the total is then the double nearest to a whole number of
  cents. The rest of the claim stands: the order is stored under a new key with status
  PENDING; its lines copy product, quantity, customisation and the product's price from the
  cart lines, in order; the stock of every product is lowered by the quantities of the
  lines that name it; the cart is still there and has no lines.
\<close>

theorem placeOrder_succeeds:
  assumes addr: "truthy (ob_shippingAddress body)"
      and cart: "carts db (userId user) = Some its"
      and nonempty: "its \<noteq> []"
      and ok: "\<forall>item\<in>set its. \<exists>p. products db (ci_productId item) = Some p \<and> p_isActive p
                 \<and> ci_quantity item \<le> p_stock p"
      and fin: "double_total db its = Finite amount"
  shows "\<exists>ord db'. placeOrder user body db = (Inr ord, db')
           \<and> orders db' = (orders db)(o_id ord \<mapsto> ord)
           \<and> o_id ord = next_id db
           \<and> o_userId ord = userId user
           \<and> o_status ord = PENDING
           \<and> o_shippingAddress ord = ob_shippingAddress body
           \<and> map oi_productId (o_items ord) = map ci_productId its
           \<and> map oi_quantity (o_items ord) = map ci_quantity its
           \<and> map oi_price (o_items ord) = map (\<lambda>item. price_of db (ci_productId item)) its
           \<and> map oi_customDesign (o_items ord) = map ci_customDesign its
           \<and> o_total ord = amount
           \<and> (\<exists>cents::int. round_double (of_int cents / 100) = Finite (o_total ord))
           \<and> (\<forall>pid. products db' pid =
                 map_option (\<lambda>p. p\<lparr>p_stock := p_stock p - ordered_qty pid its\<rparr>) (products db pid))
           \<and> carts db' = (carts db)(userId user \<mapsto> [])"
proof -
  from ok have ex: "\<forall>item\<in>set its. products db (ci_productId item) \<noteq> None"
    by auto
  from addr cart nonempty have "placeOrder_read user body db = Inr (include_product db its)"
    by (simp add: placeOrder_read_def)
  with validate_items_ok [OF ok]
  have "placeOrder user body db = placeOrder_tx user body (joined db its) db"
    by (simp add: placeOrder_def)
  with placeOrder_tx_ok [OF ex fin, of user body] cart
    order_items_joined [OF ex] double_total_cents [OF fin]
  show ?thesis
    by (simp add: default_status_def)
qed

theorem placeOrder_succeeds_witness:
  "\<exists>ord db'. placeOrder alice checkout db_exact = (Inr ord, db')
     \<and> ord = order_five
     \<and> o_total ord = 195 / 2
     \<and> orders db' 1 = Some order_five
     \<and> map_option p_stock (products db' ''p'') = Some 0
     \<and> carts db' ''alice'' = Some []"
proof -
  let ?its = "[\<lparr>ci_id = 0, ci_productId = ''p'', ci_quantity = 5, ci_customDesign = None\<rparr>]"
  have addr: "truthy (ob_shippingAddress checkout)"
    by (simp add: checkout_def)
  have cart: "carts db_exact (userId alice) = Some ?its"
    by (simp add: db_exact_def alice_def)
  have ok: "\<forall>item\<in>set ?its. \<exists>p. products db_exact (ci_productId item) = Some p \<and> p_isActive p
              \<and> ci_quantity item \<le> p_stock p"
    by (simp add: db_exact_def shirt_def)
  have fin: "double_total db_exact ?its = Finite (195 / 2)"
    by code_simp
  from placeOrder_succeeds [OF addr cart _ ok fin] obtain ord db' where
    res: "placeOrder alice checkout db_exact = (Inr ord, db')"
    and tbl: "orders db' = (orders db_exact)(o_id ord \<mapsto> ord)"
    and oid: "o_id ord = next_id db_exact"
    and tot: "o_total ord = 195 / 2"
    and stock: "\<forall>pid. products db' pid =
        map_option (\<lambda>p. p\<lparr>p_stock := p_stock p - ordered_qty pid ?its\<rparr>) (products db_exact pid)"
    and empty: "carts db' = (carts db_exact)(userId alice \<mapsto> [])"
    by auto
  have "fst (placeOrder alice checkout db_exact) = Inr order_five"
    by code_simp
  with res have ord: "ord = order_five"
    by simp
  from tbl oid ord have "orders db' 1 = Some order_five"
    by (simp add: db_exact_def)
  moreover from stock have "map_option p_stock (products db' ''p'') = Some 0"
    by (simp add: db_exact_def shirt_def ordered_qty_def)
  moreover from empty have "carts db' ''alice'' = Some []"
    by (simp add: alice_def)
  ultimately show ?thesis
    using res ord tot by simp
qed

theorem placeOrder_total_counterexample:
  "round_double (251 / 1000) = Finite (p_price sticker)
   \<and> \<not> isl (fst (placeOrder alice checkout db_sticker))
   \<and> map_option o_total (orders (snd (placeOrder alice checkout db_sticker)) 1) = Some (5 / 4)
   \<and> exact_total db_sticker (cart_items ''alice'' db_sticker)
       = 11304035064699945 / 9007199254740992
   \<and> two_decimals (exact_total db_sticker (cart_items ''alice'' db_sticker)) = 63 / 50
   \<and> two_decimals (251 / 1000 * 5) = 63 / 50
   \<and> 1 / 200 < \<bar>5 / 4 - exact_total db_sticker (cart_items ''alice'' db_sticker)\<bar>"
  by code_simp

text \<open>
  C3. With a shipping address and a cart some line of which is rejected by the validation
  (its product is inactive, or its quantity exceeds the stock), placeOrder fails and returns
  the store as it was: stock, cart lines and orders are untouched. The error is that of the
  first rejected line in cart order: ProductUnavailable when that line's product is
  inactive, InsufficientStock with the available quantity otherwise. So it is
  InsufficientStock when all products of the cart are active, and ProductUnavailable when
  no line exceeds the stock.
\<close>

theorem placeOrder_rejects_atomically:
  assumes "truthy (ob_shippingAddress body)"
      and "carts db (userId user) = Some its"
      and "\<forall>item\<in>set its. products db (ci_productId item) \<noteq> None"
      and "\<exists>item\<in>set its. offending db item"
  shows "(\<exists>bad p. find (offending db) its = Some bad
            \<and> products db (ci_productId bad) = Some p
            \<and> placeOrder user body db =
                (Inl (if \<not> p_isActive p then ProductUnavailable (p_name p)
                      else InsufficientStock (p_stock p)), db))
         \<and> ((\<forall>item\<in>set its. \<forall>p. products db (ci_productId item) = Some p \<longrightarrow> p_isActive p) \<longrightarrow>
              (\<exists>available. placeOrder user body db = (Inl (InsufficientStock available), db)))
         \<and> ((\<forall>item\<in>set its. \<forall>p. products db (ci_productId item) = Some p \<longrightarrow>
                 ci_quantity item \<le> p_stock p) \<longrightarrow>
              (\<exists>name. placeOrder user body db = (Inl (ProductUnavailable name), db)))"
proof -
  from assms(4) obtain bad where bad: "find (offending db) its = Some bad"
    by (cases "find (offending db) its") (auto simp: find_None_iff)
  then have mem: "bad \<in> set its" and off: "offending db bad"
    by (auto simp: find_Some_iff)
  from mem assms(3) obtain p where p: "products db (ci_productId bad) = Some p"
    by auto
  from assms(4) have "its \<noteq> []" by auto
  with assms(1,2) have "placeOrder_read user body db = Inr (include_product db its)"
    by (simp add: placeOrder_read_def)
  with validate_items_first_offending [OF assms(3) bad p]
  have res: "placeOrder user body db =
               (Inl (if \<not> p_isActive p then ProductUnavailable (p_name p)
                     else InsufficientStock (p_stock p)), db)"
    by (simp add: placeOrder_def)
  from off p have cause: "\<not> p_isActive p \<or> p_stock p < ci_quantity bad"
    by (simp add: offending_def)
  have first: "\<exists>bad p. find (offending db) its = Some bad
            \<and> products db (ci_productId bad) = Some p
            \<and> placeOrder user body db =
                (Inl (if \<not> p_isActive p then ProductUnavailable (p_name p)
                      else InsufficientStock (p_stock p)), db)"
    using bad p res by blast
  have stock: "(\<forall>item\<in>set its. \<forall>p. products db (ci_productId item) = Some p \<longrightarrow> p_isActive p) \<longrightarrow>
              (\<exists>available. placeOrder user body db = (Inl (InsufficientStock available), db))"
    using mem p res by auto
  have active: "(\<forall>item\<in>set its. \<forall>p. products db (ci_productId item) = Some p \<longrightarrow>
                 ci_quantity item \<le> p_stock p) \<longrightarrow>
              (\<exists>name. placeOrder user body db = (Inl (ProductUnavailable name), db))"
    using mem p res cause by fastforce
  from first stock active show ?thesis
    by (intro conjI)
qed

theorem placeOrder_rejects_atomically_witness:
  "placeOrder alice checkout db_over = (Inl (InsufficientStock 5), db_over)
   \<and> map_option p_stock (products db_over ''p'') = Some 5
   \<and> map_option (map ci_quantity) (carts db_over ''alice'') = Some [6]"
proof -
  let ?line = "\<lparr>ci_id = 0, ci_productId = ''p'', ci_quantity = 6, ci_customDesign = None\<rparr>"
  have addr: "truthy (ob_shippingAddress checkout)"
    by (simp add: checkout_def)
  have cart: "carts db_over (userId alice) = Some [?line]"
    by (simp add: db_over_def alice_def)
  have ex: "\<forall>item\<in>set [?line]. products db_over (ci_productId item) \<noteq> None"
    by (simp add: db_over_def)
  have bad: "\<exists>item\<in>set [?line]. offending db_over item"
    by (simp add: offending_def db_over_def shirt_def)
  from placeOrder_rejects_atomically [OF addr cart ex bad] obtain b p where
    "find (offending db_over) [?line] = Some b"
    and "products db_over (ci_productId b) = Some p"
    and res: "placeOrder alice checkout db_over =
               (Inl (if \<not> p_isActive p then ProductUnavailable (p_name p)
                     else InsufficientStock (p_stock p)), db_over)"
    by blast
  then have "p = shirt"
    by (auto simp: offending_def db_over_def shirt_def split: if_splits)
  with res have "placeOrder alice checkout db_over = (Inl (InsufficientStock 5), db_over)"
    by (simp add: shirt_def)
  then show ?thesis
    by (simp add: db_over_def shirt_def)
qed

section \<open>Cancelling an order\<close>

text \<open>
  C4. When the owner cancels an order that is PENDING or CONFIRMED and all products of its
  lines exist, cancelOrder succeeds, sets the status to CANCELLED and raises the stock of
  every product by the quantities of the lines that name it. Cancelling an order right
  after it was placed gives every product the stock it had before the placement.
\<close>

theorem cancelOrder_restores_stock:
  "(\<forall>ord. orders db oid = Some ord \<and> o_userId ord = userId user
          \<and> (o_status ord = PENDING \<or> o_status ord = CONFIRMED)
          \<and> list_all (\<lambda>item. products db (oi_productId item) \<noteq> None) (o_items ord) \<longrightarrow>
      cancelOrder user oid db =
        (Inr (),
         db\<lparr>products := (\<lambda>pid. map_option
                  (\<lambda>p. p\<lparr>p_stock := p_stock p + restored_qty pid (o_items ord)\<rparr>)
                  (products db pid)),
            orders := (orders db)(oid \<mapsto> ord\<lparr>o_status := CANCELLED\<rparr>)\<rparr>))
   \<and> (\<forall>ord db1. placeOrder user body db = (Inr ord, db1) \<longrightarrow>
        (\<exists>db2. cancelOrder user (o_id ord) db1 = (Inr (), db2)
               \<and> products db2 = products db
               \<and> orders db2 = (orders db1)(o_id ord \<mapsto> ord\<lparr>o_status := CANCELLED\<rparr>)))"
proof (intro conjI allI impI)
  fix ord
  assume "orders db oid = Some ord \<and> o_userId ord = userId user
          \<and> (o_status ord = PENDING \<or> o_status ord = CONFIRMED)
          \<and> list_all (\<lambda>item. products db (oi_productId item) \<noteq> None) (o_items ord)"
  then show "cancelOrder user oid db =
        (Inr (),
         db\<lparr>products := (\<lambda>pid. map_option
                  (\<lambda>p. p\<lparr>p_stock := p_stock p + restored_qty pid (o_items ord)\<rparr>)
                  (products db pid)),
            orders := (orders db)(oid \<mapsto> ord\<lparr>o_status := CANCELLED\<rparr>)\<rparr>)"
    by (intro cancelOrder_ok) (auto simp: list_all_iff)
next
  fix ord db1
  assume placed: "placeOrder user body db = (Inr ord, db1)"
  from placeOrder_Inr [OF placed] obtain its where
    ex: "\<forall>item\<in>set its. products db (ci_productId item) \<noteq> None"
    and tx: "placeOrder_tx user body (joined db its) db = (Inr ord, db1)"
    by blast
  from placeOrder_tx_Inr [OF tx] cart_total_joined [OF ex] obtain amount where
    "double_total db its = Finite amount"
    by auto
  with tx placeOrder_tx_ok [OF ex, of amount user body]
  have oid: "o_id ord = next_id db" and own: "o_userId ord = userId user"
    and st: "o_status ord = PENDING"
    and its: "o_items ord = map order_item_of (joined db its)"
    and ps: "products db1 = (\<lambda>pid. map_option (\<lambda>p. p\<lparr>p_stock := p_stock p - ordered_qty pid its\<rparr>)
                                    (products db pid))"
    and os: "orders db1 (o_id ord) = Some ord"
    by (auto simp: default_status_def)
  from ex have "map oi_productId (o_items ord) = map ci_productId its"
    unfolding its by (rule order_items_joined)
  then have "oi_productId ` set (o_items ord) = ci_productId ` set its"
    by (metis set_map)
  with ex have "\<forall>item\<in>set (o_items ord). products db (oi_productId item) \<noteq> None"
    by (metis (no_types, lifting) image_iff)
  with ps have ex1: "\<forall>item\<in>set (o_items ord). products db1 (oi_productId item) \<noteq> None"
    by simp
  have "(\<lambda>pid. map_option (\<lambda>p. p\<lparr>p_stock := p_stock p + restored_qty pid (o_items ord)\<rparr>)
                  (products db1 pid)) = products db"
  proof (rule ext)
    fix pid
    show "map_option (\<lambda>p. p\<lparr>p_stock := p_stock p + restored_qty pid (o_items ord)\<rparr>)
            (products db1 pid) = products db pid"
      using restored_qty_order_items [OF ex, of pid]
      by (cases "products db pid") (simp_all add: ps its)
  qed
  with cancelOrder_ok [OF os _ _ ex1, of user] own st
  show "\<exists>db2. cancelOrder user (o_id ord) db1 = (Inr (), db2)
               \<and> products db2 = products db
               \<and> orders db2 = (orders db1)(o_id ord \<mapsto> ord\<lparr>o_status := CANCELLED\<rparr>)"
    by simp
qed

theorem cancelOrder_restores_stock_witness:
  "cancelOrder alice 1 db_placed =
     (Inr (),
      db_placed\<lparr>products := (\<lambda>pid. map_option
                    (\<lambda>p. p\<lparr>p_stock := p_stock p + restored_qty pid (o_items order_five)\<rparr>)
                    (products db_placed pid)),
                orders := (orders db_placed)(1 \<mapsto> order_five\<lparr>o_status := CANCELLED\<rparr>)\<rparr>)
   \<and> map_option p_stock (products db_placed ''p'') = Some 0
   \<and> products db_cancelled = products db_exact
   \<and> map_option p_stock (products db_cancelled ''p'') = Some 5
   \<and> map_option o_status (orders db_cancelled 1) = Some CANCELLED"
proof -
  have placed: "placeOrder alice checkout db_exact = (Inr order_five, db_placed)"
  proof -
    have "fst (placeOrder alice checkout db_exact) = Inr order_five"
      by code_simp
    then show ?thesis
      by (simp add: db_placed_def prod_eq_iff)
  qed
  have stored: "orders db_placed 1 = Some order_five"
    unfolding db_placed_def by code_simp
  have hyp: "orders db_placed 1 = Some order_five \<and> o_userId order_five = userId alice
      \<and> (o_status order_five = PENDING \<or> o_status order_five = CONFIRMED)
      \<and> list_all (\<lambda>item. products db_placed (oi_productId item) \<noteq> None) (o_items order_five)"
    unfolding db_placed_def by code_simp
  note both = cancelOrder_restores_stock [of db_placed 1 alice checkout]
    cancelOrder_restores_stock [of db_exact 1 alice checkout]
  from both(1) hyp have first: "cancelOrder alice 1 db_placed =
     (Inr (),
      db_placed\<lparr>products := (\<lambda>pid. map_option
                    (\<lambda>p. p\<lparr>p_stock := p_stock p + restored_qty pid (o_items order_five)\<rparr>)
                    (products db_placed pid)),
                orders := (orders db_placed)(1 \<mapsto> order_five\<lparr>o_status := CANCELLED\<rparr>)\<rparr>)"
    by blast
  from both(2) placed obtain db2 where
    "cancelOrder alice (o_id order_five) db_placed = (Inr (), db2)"
    and "products db2 = products db_exact"
    and "orders db2 = (orders db_placed)(o_id order_five \<mapsto> order_five\<lparr>o_status := CANCELLED\<rparr>)"
    by blast
  then have restored: "products db_cancelled = products db_exact"
    and status: "map_option o_status (orders db_cancelled 1) = Some CANCELLED"
    by (simp_all add: db_cancelled_def order_five_def)
  have before: "map_option p_stock (products db_placed ''p'') = Some 0"
    unfolding db_placed_def by code_simp
  from restored have "map_option p_stock (products db_cancelled ''p'') = Some 5"
    by (simp add: db_exact_def shirt_def)
  with first restored status before show ?thesis
    by simp
qed

text \<open>
  C5. For an order whose status is neither PENDING nor CONFIRMED, cancelOrder fails and
  returns the store as it was, whoever asks; for the owner or an administrator the error is
  InvalidState. After a cancellation that succeeded, cancelling the same order again fails
  with InvalidState and changes nothing, so no stock is credited twice.
\<close>

theorem cancelOrder_invalid_state:
  "(\<forall>ord. orders db oid = Some ord \<and> o_status ord \<noteq> PENDING \<and> o_status ord \<noteq> CONFIRMED \<longrightarrow>
      isl (fst (cancelOrder user oid db))
      \<and> snd (cancelOrder user oid db) = db
      \<and> (o_userId ord = userId user \<or> role user = ''ADMIN'' \<longrightarrow>
           cancelOrder user oid db = (Inl InvalidState, db)))
   \<and> (\<forall>db1. cancelOrder user oid db = (Inr (), db1) \<longrightarrow>
        cancelOrder user oid db1 = (Inl InvalidState, db1))"
proof (intro conjI allI impI)
  fix ord
  assume a: "orders db oid = Some ord \<and> o_status ord \<noteq> PENDING \<and> o_status ord \<noteq> CONFIRMED"
  then show "isl (fst (cancelOrder user oid db))" 
    by (simp add: cancelOrder_def)
  from a show "snd (cancelOrder user oid db) = db"
    by (simp add: cancelOrder_def)
  assume "o_userId ord = userId user \<or> role user = ''ADMIN''"
  with a show "cancelOrder user oid db = (Inl InvalidState, db)"
    by (auto simp add: cancelOrder_def)
next
  fix db1
  assume ok: "cancelOrder user oid db = (Inr (), db1)"
  then obtain ord ps where ord: "orders db oid = Some ord"
    and auth: "\<not> (o_userId ord \<noteq> userId user \<and> role user \<noteq> ''ADMIN'')"
    and db1: "db1 = db\<lparr>products := ps, orders := (orders db)(oid \<mapsto> ord\<lparr>o_status := CANCELLED\<rparr>)\<rparr>"
    by (auto simp: cancelOrder_def split: option.splits if_splits sum.splits)
  then show "cancelOrder user oid db1 = (Inl InvalidState, db1)"
    by (auto simp add: cancelOrder_def)
qed

theorem cancelOrder_invalid_state_witness:
  "cancelOrder alice 1 db_placed = (Inr (), db_cancelled)
   \<and> map_option o_status (orders db_cancelled 1) = Some CANCELLED
   \<and> cancelOrder alice 1 db_cancelled = (Inl InvalidState, db_cancelled)
   \<and> snd (cancelOrder bob 1 db_cancelled) = db_cancelled
   \<and> map_option p_stock (products db_cancelled ''p'') = Some 5"
proof -
  have once: "cancelOrder alice 1 db_placed = (Inr (), db_cancelled)"
  proof -
    have "fst (cancelOrder alice 1 db_placed) = Inr ()"
      unfolding db_placed_def by code_simp
    then show ?thesis
      by (simp add: db_cancelled_def prod_eq_iff)
  qed
  have stored: "orders db_cancelled 1 = Some (order_five\<lparr>o_status := CANCELLED\<rparr>)"
    unfolding db_cancelled_def db_placed_def by code_simp
  then have hyp: "orders db_cancelled 1 = Some (order_five\<lparr>o_status := CANCELLED\<rparr>)
      \<and> o_status (order_five\<lparr>o_status := CANCELLED\<rparr>) \<noteq> PENDING
      \<and> o_status (order_five\<lparr>o_status := CANCELLED\<rparr>) \<noteq> CONFIRMED"
    by simp
  have owner: "o_userId (order_five\<lparr>o_status := CANCELLED\<rparr>) = userId alice"
    by (simp add: order_five_def alice_def)
  from cancelOrder_invalid_state [of db_cancelled 1 alice] hyp owner
  have again: "cancelOrder alice 1 db_cancelled = (Inl InvalidState, db_cancelled)"
    by blast
  from cancelOrder_invalid_state [of db_cancelled 1 bob] hyp
  have other: "snd (cancelOrder bob 1 db_cancelled) = db_cancelled"
    by blast
  from cancelOrder_invalid_state [of db_placed 1 alice] once
  have "cancelOrder alice 1 db_cancelled = (Inl InvalidState, db_cancelled)"
    by blast
  have "map_option p_stock (products db_cancelled ''p'') = Some 5"
    unfolding db_cancelled_def db_placed_def by code_simp
  with once stored again other show ?thesis
    by simp
qed

text \<open>
  C6. The claim: when a line of a cancellable order names a product that is no longer in
  the catalogue, cancelOrder still succeeds, skips that line, restores the stock of the
  other lines and sets the status to CANCELLED. The code has no such skip: the update of
  the missing product throws inside the transaction, which is rolled back. As amended: for
  a PENDING or CONFIRMED order with such a line, cancelOrder by the owner or an
  administrator fails with the store's record-not-found error and leaves the status of the
  order and the stock of every product as they were.
\<close>

theorem cancelOrder_missing_product_fails:
  assumes "orders db oid = Some ord"
      and "o_userId ord = userId user \<or> role user = ''ADMIN''"
      and "o_status ord = PENDING \<or> o_status ord = CONFIRMED"
      and "\<exists>item\<in>set (o_items ord). products db (oi_productId item) = None"
  shows "cancelOrder user oid db = (Inl RecordNotFound, db)"
  using assms increment_stock_missing [of "o_items ord" "products db"]
  by (auto simp: cancelOrder_def)

theorem cancelOrder_missing_product_fails_witness:
  "cancelOrder alice 0 db_gone = (Inl RecordNotFound, db_gone)"
proof -
  have "orders db_gone 0 = Some order_gone"
    by (simp add: db_gone_def)
  moreover have "o_userId order_gone = userId alice \<or> role alice = ''ADMIN''"
    by (simp add: order_gone_def alice_def)
  moreover have "o_status order_gone = PENDING \<or> o_status order_gone = CONFIRMED"
    by (simp add: order_gone_def)
  moreover have "\<exists>item\<in>set (o_items order_gone). products db_gone (oi_productId item) = None"
    by (simp add: order_gone_def db_gone_def)
  ultimately show ?thesis
    by (rule cancelOrder_missing_product_fails)
qed

theorem cancelOrder_missing_product_counterexample:
  "orders db_gone 0 = Some order_gone
   \<and> o_status order_gone = PENDING
   \<and> products db_gone ''gone'' = None
   \<and> map_option p_stock (products db_gone ''p'') = Some 5
   \<and> fst (cancelOrder alice 0 db_gone) = Inl RecordNotFound
   \<and> map_option o_status (orders (snd (cancelOrder alice 0 db_gone)) 0) = Some PENDING
   \<and> map_option p_stock (products (snd (cancelOrder alice 0 db_gone)) ''p'') = Some 5"
  by code_simp

section \<open>Status update by an administrator: what it leaves alone\<close>

text \<open>
  C10. updateOrderStatus never changes a product (so no stock), a cart or any other order.
  For an existing order and a target status of the enumerated set it succeeds and the
  order differs from before in its status, now the target, and in its payment status, when
  the request carries one. In particular a status set to CANCELLED this way restores no
  stock.
\<close>

theorem updateOrderStatus_frame:
  "products (snd (updateOrderStatus oid body db)) = products db
   \<and> carts (snd (updateOrderStatus oid body db)) = carts db
   \<and> (\<forall>other. other \<noteq> oid \<longrightarrow> orders (snd (updateOrderStatus oid body db)) other = orders db other)
   \<and> (\<forall>ord st. orders db oid = Some ord \<and> sb_status body = Some (status_name st) \<longrightarrow>
        updateOrderStatus oid body db =
          (Inr (ord\<lparr>o_status := st,
                    o_paymentStatus := (if truthy (sb_paymentStatus body)
                                        then sb_paymentStatus body else o_paymentStatus ord)\<rparr>),
           db\<lparr>orders := (orders db)(oid \<mapsto>
                 ord\<lparr>o_status := st,
                     o_paymentStatus := (if truthy (sb_paymentStatus body)
                                         then sb_paymentStatus body else o_paymentStatus ord)\<rparr>)\<rparr>))"
proof (intro conjI allI impI)
  show "products (snd (updateOrderStatus oid body db)) = products db"
    by (simp add: updateOrderStatus_def Let_def split: option.splits)
  show "carts (snd (updateOrderStatus oid body db)) = carts db"
    by (simp add: updateOrderStatus_def Let_def split: option.splits)
next
  fix other assume "other \<noteq> oid"
  then show "orders (snd (updateOrderStatus oid body db)) other = orders db other"
    by (simp add: updateOrderStatus_def Let_def split: option.splits)
next
  fix ord st
  assume a: "orders db oid = Some ord \<and> sb_status body = Some (status_name st)"
  then show "updateOrderStatus oid body db =
          (Inr (ord\<lparr>o_status := st,
                    o_paymentStatus := (if truthy (sb_paymentStatus body)
                                        then sb_paymentStatus body else o_paymentStatus ord)\<rparr>),
           db\<lparr>orders := (orders db)(oid \<mapsto>
                 ord\<lparr>o_status := st,
                     o_paymentStatus := (if truthy (sb_paymentStatus body)
                                         then sb_paymentStatus body else o_paymentStatus ord)\<rparr>)\<rparr>)"
    by (simp add: updateOrderStatus_def Let_def status_named_status_name status_name_nonempty)
qed

theorem updateOrderStatus_frame_witness:
  "fst (updateOrderStatus 1 \<lparr>sb_status = Some ''CANCELLED'', sb_paymentStatus = None\<rparr> db_placed)
     = Inr (order_five\<lparr>o_status := CANCELLED\<rparr>)
   \<and> products (snd (updateOrderStatus 1
         \<lparr>sb_status = Some ''CANCELLED'', sb_paymentStatus = None\<rparr> db_placed))
     = products db_placed
   \<and> map_option p_stock (products db_placed ''p'') = Some 0"
proof -
  let ?body = "\<lparr>sb_status = Some ''CANCELLED'', sb_paymentStatus = None\<rparr>"
  have hyp: "orders db_placed 1 = Some order_five
             \<and> sb_status ?body = Some (status_name CANCELLED)"
    unfolding db_placed_def by code_simp
  have "map_option p_stock (products db_placed ''p'') = Some 0"
    unfolding db_placed_def by code_simp
  with updateOrderStatus_frame [of 1 ?body db_placed] hyp show ?thesis
    by (auto simp: order_five_def)
qed

section \<open>Merging cart lines\<close>

text \<open>
  C8. For an active product, a cart whose line ids are below the id counter, and requests
  within stock:
  a request with a customisation always appends a line with that customisation and leaves
  every line of the cart as it was, whatever the cart holds. Two requests with the same
  customisation append two lines. When the cart has no line for the product that lacks a
  customisation: a request for \<open>q1\<close> units without customisation appends a line of
  \<open>q1\<close>; a second such request for \<open>q2\<close> units turns that line into one of
  \<open>q1 + q2\<close> and adds no line, unless \<open>q2\<close> or \<open>q1 + q2\<close> exceeds the stock, in
  which case it fails with InsufficientStock and changes nothing; a request with a
  customisation followed by one without appends two lines, the first with the
  customisation and the second without; and a request without a customisation followed by
  one with it appends two lines as well, the first without and the second with the
  customisation.
\<close>

theorem addToCart_merges_plain_lines:
  assumes prd: "products db pid = Some prd" "p_isActive prd" "pid \<noteq> []"
      and fresh: "\<forall>i\<in>set (cart_items (userId user) db). ci_id i < next_id db"
      and q1: "q1 \<le> p_stock prd"
      and plain: "\<not> truthy none1" "\<not> truthy none2"
      and design: "design \<noteq> []"
  shows "((\<forall>i\<in>set (cart_items (userId user) db).
             ci_productId i = pid \<longrightarrow> ci_customDesign i \<noteq> None) \<longrightarrow>
          (\<exists>l1 db1.
            addToCart user \<lparr>cb_productId = Some pid, cb_quantity = Some q1,
                            cb_customDesign = none1\<rparr> db = (Inr l1, db1)
            \<and> l1 = \<lparr>ci_id = next_id db, ci_productId = pid, ci_quantity = q1,
                     ci_customDesign = None\<rparr>
            \<and> cart_items (userId user) db1 = cart_items (userId user) db @ [l1]
            \<and> (if q2 \<le> p_stock prd \<and> q1 + q2 \<le> p_stock prd
                then \<exists>db2.
                       addToCart user \<lparr>cb_productId = Some pid, cb_quantity = Some q2,
                                       cb_customDesign = none2\<rparr> db1
                         = (Inr (l1\<lparr>ci_quantity := q1 + q2\<rparr>), db2)
                       \<and> cart_items (userId user) db2
                           = cart_items (userId user) db @ [l1\<lparr>ci_quantity := q1 + q2\<rparr>]
                else addToCart user \<lparr>cb_productId = Some pid, cb_quantity = Some q2,
                                     cb_customDesign = none2\<rparr> db1
                       = (Inl (InsufficientStock (p_stock prd)), db1))))
         \<and> ((\<forall>i\<in>set (cart_items (userId user) db).
                ci_productId i = pid \<longrightarrow> ci_customDesign i \<noteq> None) \<and> q2 \<le> p_stock prd \<longrightarrow>
              (\<exists>lc dbc lp db2.
                 addToCart user \<lparr>cb_productId = Some pid, cb_quantity = Some q1,
                                 cb_customDesign = Some design\<rparr> db = (Inr lc, dbc)
                 \<and> addToCart user \<lparr>cb_productId = Some pid, cb_quantity = Some q2,
                                   cb_customDesign = none2\<rparr> dbc = (Inr lp, db2)
                 \<and> lc = \<lparr>ci_id = next_id db, ci_productId = pid, ci_quantity = q1,
                          ci_customDesign = Some design\<rparr>
                 \<and> lp = \<lparr>ci_id = Suc (next_id db), ci_productId = pid, ci_quantity = q2,
                          ci_customDesign = None\<rparr>
                 \<and> cart_items (userId user) db2 = cart_items (userId user) db @ [lc, lp]))
         \<and> (q2 \<le> p_stock prd \<longrightarrow>
              (\<exists>lc dbc lc' db2.
                 addToCart user \<lparr>cb_productId = Some pid, cb_quantity = Some q1,
                                 cb_customDesign = Some design\<rparr> db = (Inr lc, dbc)
                 \<and> addToCart user \<lparr>cb_productId = Some pid, cb_quantity = Some q2,
                                   cb_customDesign = Some design\<rparr> dbc = (Inr lc', db2)
                 \<and> lc = \<lparr>ci_id = next_id db, ci_productId = pid, ci_quantity = q1,
                          ci_customDesign = Some design\<rparr>
                 \<and> lc' = \<lparr>ci_id = Suc (next_id db), ci_productId = pid, ci_quantity = q2,
                           ci_customDesign = Some design\<rparr>
                 \<and> cart_items (userId user) db2 = cart_items (userId user) db @ [lc, lc']))
         \<and> ((\<forall>i\<in>set (cart_items (userId user) db).
                ci_productId i = pid \<longrightarrow> ci_customDesign i \<noteq> None) \<and> q2 \<le> p_stock prd \<longrightarrow>
              (\<exists>l1 db1 lc db2.
                 addToCart user \<lparr>cb_productId = Some pid, cb_quantity = Some q1,
                                 cb_customDesign = none1\<rparr> db = (Inr l1, db1)
                 \<and> addToCart user \<lparr>cb_productId = Some pid, cb_quantity = Some q2,
                                   cb_customDesign = Some design\<rparr> db1 = (Inr lc, db2)
                 \<and> l1 = \<lparr>ci_id = next_id db, ci_productId = pid, ci_quantity = q1,
                          ci_customDesign = None\<rparr>
                 \<and> lc = \<lparr>ci_id = Suc (next_id db), ci_productId = pid, ci_quantity = q2,
                          ci_customDesign = Some design\<rparr>
                 \<and> cart_items (userId user) db2 = cart_items (userId user) db @ [l1, lc]))
         \<and> (\<exists>lc dbc.
               addToCart user \<lparr>cb_productId = Some pid, cb_quantity = Some q1,
                               cb_customDesign = Some design\<rparr> db = (Inr lc, dbc)
               \<and> lc = \<lparr>ci_id = next_id db, ci_productId = pid, ci_quantity = q1,
                        ci_customDesign = Some design\<rparr>
               \<and> cart_items (userId user) dbc = cart_items (userId user) db @ [lc])"
proof -
  let ?u = "userId user"
  let ?its = "cart_items ?u db"
  let ?noline = "\<forall>i\<in>set ?its. ci_productId i = pid \<longrightarrow> ci_customDesign i \<noteq> None"
  let ?b1 = "\<lparr>cb_productId = Some pid, cb_quantity = Some q1, cb_customDesign = none1\<rparr>"
  let ?b2 = "\<lparr>cb_productId = Some pid, cb_quantity = Some q2, cb_customDesign = none2\<rparr>"
  let ?bc = "\<lparr>cb_productId = Some pid, cb_quantity = Some q1, cb_customDesign = Some design\<rparr>"
  let ?bc2 = "\<lparr>cb_productId = Some pid, cb_quantity = Some q2, cb_customDesign = Some design\<rparr>"
  let ?l1 = "\<lparr>ci_id = next_id db, ci_productId = pid, ci_quantity = q1, ci_customDesign = None\<rparr>"
  let ?lc = "\<lparr>ci_id = next_id db, ci_productId = pid, ci_quantity = q1,
              ci_customDesign = Some design\<rparr>"
  let ?db1 = "db\<lparr>carts := (carts db)(?u \<mapsto> ?its @ [?l1]), next_id := Suc (next_id db)\<rparr>"
  let ?dbc = "db\<lparr>carts := (carts db)(?u \<mapsto> ?its @ [?lc]), next_id := Suc (next_id db)\<rparr>"
  have its1: "cart_items ?u ?db1 = ?its @ [?l1]"
    by (simp add: cart_items_def)
  have itsc: "cart_items ?u ?dbc = ?its @ [?lc]"
    by (simp add: cart_items_def)
  from fresh have nid: "\<forall>i\<in>set ?its. ci_id i \<noteq> next_id db"
    by auto
  have cfirst: "addToCart user ?bc db = (Inr ?lc, ?dbc)"
    using addToCart_create [of ?bc pid db prd q1 user] prd q1 design
    by simp
  have first: "addToCart user ?b1 db = (Inr ?l1, ?db1)" if noline: ?noline
    using addToCart_create [of ?b1 pid db prd q1 user] prd q1 plain(1) find_last_plain(1) [OF noline]
    by simp
  have merged: "?noline \<longrightarrow> (\<exists>l1 db1.
           addToCart user ?b1 db = (Inr l1, db1)
           \<and> l1 = ?l1
           \<and> cart_items (userId user) db1 = cart_items (userId user) db @ [l1]
           \<and> (if q2 \<le> p_stock prd \<and> q1 + q2 \<le> p_stock prd
               then \<exists>db2.
                      addToCart user ?b2 db1
                        = (Inr (l1\<lparr>ci_quantity := q1 + q2\<rparr>), db2)
                      \<and> cart_items (userId user) db2
                          = cart_items (userId user) db @ [l1\<lparr>ci_quantity := q1 + q2\<rparr>]
               else addToCart user ?b2 db1
                      = (Inl (InsufficientStock (p_stock prd)), db1)))"
  proof
    assume noline: ?noline
    have found: "find (\<lambda>i. ci_productId i = pid \<and> ci_customDesign i = None) (cart_items ?u ?db1)
                   = Some ?l1"
      unfolding its1 using find_last_plain(2) [OF noline, of ?l1] by simp
    have second: "addToCart user ?b2 ?db1 =
        (if q2 \<le> p_stock prd \<and> q1 + q2 \<le> p_stock prd
         then (Inr (?l1\<lparr>ci_quantity := q1 + q2\<rparr>),
               ?db1\<lparr>carts := (carts ?db1)(?u \<mapsto> ?its @ [?l1\<lparr>ci_quantity := q1 + q2\<rparr>])\<rparr>)
         else (Inl (InsufficientStock (p_stock prd)), ?db1))"
      using addToCart_merge [of ?b2 pid ?db1 prd q2 user ?l1] prd plain(2) found
      by (simp add: its1 map_replace_absent [OF nid])
    show "\<exists>l1 db1.
           addToCart user ?b1 db = (Inr l1, db1)
           \<and> l1 = ?l1
           \<and> cart_items (userId user) db1 = cart_items (userId user) db @ [l1]
           \<and> (if q2 \<le> p_stock prd \<and> q1 + q2 \<le> p_stock prd
               then \<exists>db2.
                      addToCart user ?b2 db1
                        = (Inr (l1\<lparr>ci_quantity := q1 + q2\<rparr>), db2)
                      \<and> cart_items (userId user) db2
                          = cart_items (userId user) db @ [l1\<lparr>ci_quantity := q1 + q2\<rparr>]
               else addToCart user ?b2 db1
                      = (Inl (InsufficientStock (p_stock prd)), db1))"
      using first [OF noline] its1 second by (simp add: cart_items_def)
  qed
  have two: "?noline \<and> q2 \<le> p_stock prd \<longrightarrow>
         (\<exists>lc dbc lp db2.
            addToCart user ?bc db = (Inr lc, dbc)
            \<and> addToCart user ?b2 dbc = (Inr lp, db2)
            \<and> lc = ?lc
            \<and> lp = \<lparr>ci_id = Suc (next_id db), ci_productId = pid, ci_quantity = q2,
                     ci_customDesign = None\<rparr>
            \<and> cart_items (userId user) db2 = cart_items (userId user) db @ [lc, lp])"
  proof
    assume a: "?noline \<and> q2 \<le> p_stock prd"
    then have noline: ?noline and q2: "q2 \<le> p_stock prd"
      by blast+
    have nf: "find (\<lambda>i. ci_productId i = pid \<and> ci_customDesign i = None) (cart_items ?u ?dbc)
                = None"
      unfolding itsc using find_last_plain(3) [OF noline, of ?lc] by simp
    show "\<exists>lc dbc lp db2.
            addToCart user ?bc db = (Inr lc, dbc)
            \<and> addToCart user ?b2 dbc = (Inr lp, db2)
            \<and> lc = ?lc
            \<and> lp = \<lparr>ci_id = Suc (next_id db), ci_productId = pid, ci_quantity = q2,
                     ci_customDesign = None\<rparr>
            \<and> cart_items (userId user) db2 = cart_items (userId user) db @ [lc, lp]"
      using cfirst addToCart_create [of ?b2 pid ?dbc prd q2 user] prd q2 plain(2) nf itsc
      by (simp add: cart_items_def)
  qed
  have same: "q2 \<le> p_stock prd \<longrightarrow>
         (\<exists>lc dbc lc' db2.
            addToCart user ?bc db = (Inr lc, dbc)
            \<and> addToCart user ?bc2 dbc = (Inr lc', db2)
            \<and> lc = ?lc
            \<and> lc' = \<lparr>ci_id = Suc (next_id db), ci_productId = pid, ci_quantity = q2,
                      ci_customDesign = Some design\<rparr>
            \<and> cart_items (userId user) db2 = cart_items (userId user) db @ [lc, lc'])"
  proof
    assume q2: "q2 \<le> p_stock prd"
    show "\<exists>lc dbc lc' db2.
            addToCart user ?bc db = (Inr lc, dbc)
            \<and> addToCart user ?bc2 dbc = (Inr lc', db2)
            \<and> lc = ?lc
            \<and> lc' = \<lparr>ci_id = Suc (next_id db), ci_productId = pid, ci_quantity = q2,
                      ci_customDesign = Some design\<rparr>
            \<and> cart_items (userId user) db2 = cart_items (userId user) db @ [lc, lc']"
      using cfirst addToCart_create [of ?bc2 pid ?dbc prd q2 user] prd q2 design itsc
      by (simp add: cart_items_def)
  qed
  have after: "?noline \<and> q2 \<le> p_stock prd \<longrightarrow>
         (\<exists>l1 db1 lc db2.
            addToCart user ?b1 db = (Inr l1, db1)
            \<and> addToCart user ?bc2 db1 = (Inr lc, db2)
            \<and> l1 = ?l1
            \<and> lc = \<lparr>ci_id = Suc (next_id db), ci_productId = pid, ci_quantity = q2,
                     ci_customDesign = Some design\<rparr>
            \<and> cart_items (userId user) db2 = cart_items (userId user) db @ [l1, lc])"
  proof
    assume a: "?noline \<and> q2 \<le> p_stock prd"
    then have noline: ?noline and q2: "q2 \<le> p_stock prd"
      by blast+
    show "\<exists>l1 db1 lc db2.
            addToCart user ?b1 db = (Inr l1, db1)
            \<and> addToCart user ?bc2 db1 = (Inr lc, db2)
            \<and> l1 = ?l1
            \<and> lc = \<lparr>ci_id = Suc (next_id db), ci_productId = pid, ci_quantity = q2,
                     ci_customDesign = Some design\<rparr>
            \<and> cart_items (userId user) db2 = cart_items (userId user) db @ [l1, lc]"
      using first [OF noline] addToCart_create [of ?bc2 pid ?db1 prd q2 user] prd q2 design its1
      by (simp add: cart_items_def)
  qed
  have always: "\<exists>lc dbc.
            addToCart user ?bc db = (Inr lc, dbc)
            \<and> lc = ?lc
            \<and> cart_items (userId user) dbc = cart_items (userId user) db @ [lc]"
    using cfirst itsc by simp
  from merged two same after always show ?thesis
    by (intro conjI)
qed

theorem addToCart_merges_plain_lines_witness:
  "(\<exists>l1 db1 db2.
      addToCart alice (add_plain 2) db_shop = (Inr l1, db1)
      \<and> addToCart alice (add_plain 3) db1 = (Inr (l1\<lparr>ci_quantity := 5\<rparr>), db2)
      \<and> cart_items ''alice'' db2 =
          [\<lparr>ci_id = 0, ci_productId = ''p'', ci_quantity = 5, ci_customDesign = None\<rparr>])
   \<and> (\<exists>lc dbc lp db2.
        addToCart alice (add_custom 2) db_shop = (Inr lc, dbc)
        \<and> addToCart alice (add_plain 3) dbc = (Inr lp, db2)
        \<and> cart_items ''alice'' db2 =
            [\<lparr>ci_id = 0, ci_productId = ''p'', ci_quantity = 2, ci_customDesign = Some ''logo''\<rparr>,
             \<lparr>ci_id = 1, ci_productId = ''p'', ci_quantity = 3, ci_customDesign = None\<rparr>])
   \<and> (\<exists>l1 db1 lc db2.
        addToCart alice (add_plain 2) db_shop = (Inr l1, db1)
        \<and> addToCart alice (add_custom 3) db1 = (Inr lc, db2)
        \<and> cart_items ''alice'' db2 =
            [\<lparr>ci_id = 0, ci_productId = ''p'', ci_quantity = 2, ci_customDesign = None\<rparr>,
             \<lparr>ci_id = 1, ci_productId = ''p'', ci_quantity = 3,
              ci_customDesign = Some ''logo''\<rparr>])"
proof -
  have prd: "products db_shop ''p'' = Some shirt" "p_isActive shirt" "''p'' \<noteq> []"
    by (simp_all add: db_shop_def shirt_def)
  have its: "cart_items (userId alice) db_shop = []"
    by (simp add: cart_items_def db_shop_def)
  have fresh: "\<forall>i\<in>set (cart_items (userId alice) db_shop). ci_id i < next_id db_shop"
    and noline: "\<forall>i\<in>set (cart_items (userId alice) db_shop).
                   ci_productId i = ''p'' \<longrightarrow> ci_customDesign i \<noteq> None"
    by (simp_all add: its)
  have q: "(2::int) \<le> p_stock shirt" "(3::int) \<le> p_stock shirt" "(2::int) + 3 \<le> p_stock shirt"
    by (simp_all add: shirt_def)
  have plain: "\<not> truthy None"
    by simp
  have design: "''logo'' \<noteq> []"
    by simp
  note inst = addToCart_merges_plain_lines [OF prd fresh q(1) plain plain design, of 3]
  from inst noline q obtain l1 db1 db2 where
    "addToCart alice \<lparr>cb_productId = Some ''p'', cb_quantity = Some 2, cb_customDesign = None\<rparr>
       db_shop = (Inr l1, db1)"
    and "l1 = \<lparr>ci_id = next_id db_shop, ci_productId = ''p'', ci_quantity = 2,
               ci_customDesign = None\<rparr>"
    and "addToCart alice \<lparr>cb_productId = Some ''p'', cb_quantity = Some 3, cb_customDesign = None\<rparr>
           db1 = (Inr (l1\<lparr>ci_quantity := 2 + 3\<rparr>), db2)"
    and "cart_items (userId alice) db2
           = cart_items (userId alice) db_shop @ [l1\<lparr>ci_quantity := 2 + 3\<rparr>]"
    by auto
  then have merged: "\<exists>l1 db1 db2.
      addToCart alice (add_plain 2) db_shop = (Inr l1, db1)
      \<and> addToCart alice (add_plain 3) db1 = (Inr (l1\<lparr>ci_quantity := 5\<rparr>), db2)
      \<and> cart_items ''alice'' db2 =
          [\<lparr>ci_id = 0, ci_productId = ''p'', ci_quantity = 5, ci_customDesign = None\<rparr>]"
    by (auto simp: add_plain_def cart_items_def db_shop_def alice_def)
  from inst noline q obtain lc dbc lp db3 where
    "addToCart alice \<lparr>cb_productId = Some ''p'', cb_quantity = Some 2,
                      cb_customDesign = Some ''logo''\<rparr> db_shop = (Inr lc, dbc)"
    and "addToCart alice \<lparr>cb_productId = Some ''p'', cb_quantity = Some 3, cb_customDesign = None\<rparr>
           dbc = (Inr lp, db3)"
    and "lc = \<lparr>ci_id = next_id db_shop, ci_productId = ''p'', ci_quantity = 2,
               ci_customDesign = Some ''logo''\<rparr>"
    and "lp = \<lparr>ci_id = Suc (next_id db_shop), ci_productId = ''p'', ci_quantity = 3,
               ci_customDesign = None\<rparr>"
    and "cart_items (userId alice) db3 = cart_items (userId alice) db_shop @ [lc, lp]"
    by auto
  then have two: "\<exists>lc dbc lp db2.
        addToCart alice (add_custom 2) db_shop = (Inr lc, dbc)
        \<and> addToCart alice (add_plain 3) dbc = (Inr lp, db2)
        \<and> cart_items ''alice'' db2 =
            [\<lparr>ci_id = 0, ci_productId = ''p'', ci_quantity = 2, ci_customDesign = Some ''logo''\<rparr>,
             \<lparr>ci_id = 1, ci_productId = ''p'', ci_quantity = 3, ci_customDesign = None\<rparr>]"
    by (auto simp: add_plain_def add_custom_def cart_items_def db_shop_def alice_def)
  from inst noline q obtain l1' db1' lc' db4 where
    "addToCart alice \<lparr>cb_productId = Some ''p'', cb_quantity = Some 2, cb_customDesign = None\<rparr>
       db_shop = (Inr l1', db1')"
    and "addToCart alice \<lparr>cb_productId = Some ''p'', cb_quantity = Some 3,
                          cb_customDesign = Some ''logo''\<rparr> db1' = (Inr lc', db4)"
    and "l1' = \<lparr>ci_id = next_id db_shop, ci_productId = ''p'', ci_quantity = 2,
                ci_customDesign = None\<rparr>"
    and "lc' = \<lparr>ci_id = Suc (next_id db_shop), ci_productId = ''p'', ci_quantity = 3,
                ci_customDesign = Some ''logo''\<rparr>"
    and "cart_items (userId alice) db4 = cart_items (userId alice) db_shop @ [l1', lc']"
    by auto
  then have after: "\<exists>l1 db1 lc db2.
        addToCart alice (add_plain 2) db_shop = (Inr l1, db1)
        \<and> addToCart alice (add_custom 3) db1 = (Inr lc, db2)
        \<and> cart_items ''alice'' db2 =
            [\<lparr>ci_id = 0, ci_productId = ''p'', ci_quantity = 2, ci_customDesign = None\<rparr>,
             \<lparr>ci_id = 1, ci_productId = ''p'', ci_quantity = 3,
              ci_customDesign = Some ''logo''\<rparr>]"
    by (auto simp: add_plain_def add_custom_def cart_items_def db_shop_def alice_def)
  from merged two after show ?thesis
    by (intro conjI)
qed

end
